theory Spec2Isabelle
  imports Complex_Main
begin

section \<open>Exceptions\<close>

text \<open>
  The exceptions that \<^verbatim>\<open>synthesis/hts2wav.py\<close> can end with. \<open>ValueError\<close>,
  \<open>AssertionError\<close>, \<open>AttributeError\<close> and \<open>OSError\<close> are the built-in classes
  raised on the paths of the file itself (a failed tuple unpacking, \<^verbatim>\<open>np.max\<close> of an
  empty array, the explicit \<^verbatim>\<open>raise\<close> and \<^verbatim>\<open>assert\<close>, a \<^verbatim>\<open>None\<close> path, a file
  that cannot be opened). \<open>Raised name\<close> is an exception of class \<open>name\<close> raised inside
  an imported library (nnmnkwii, nnsvs, the vocoder): the file catches nothing, so it
  propagates unchanged.
\<close>

datatype error = ValueError | AssertionError | AttributeError | OSError | Raised string

section \<open>Samples\<close>

text \<open>
  A sample is a double-precision number: a finite value, an infinity or NaN. Finite
  values are reals and arithmetic on them is exact (rounding is not modelled, and both
  zeros are \<open>Val 0\<close>); the special values follow IEEE 754 as numpy applies it.
\<close>

datatype f64 = Val real | PosInf | NegInf | NaN

fun f_abs :: "f64 \<Rightarrow> f64" where
  "f_abs (Val r) = Val \<bar>r\<bar>"
| "f_abs PosInf = PosInf"
| "f_abs NegInf = PosInf"
| "f_abs NaN = NaN"

text \<open>The comparison \<^verbatim>\<open>a > b\<close>: false as soon as one side is NaN.\<close>

fun f_gt :: "f64 \<Rightarrow> f64 \<Rightarrow> bool" where
  "f_gt NaN b = False"
| "f_gt a NaN = False"
| "f_gt NegInf b = False"
| "f_gt PosInf b = (b \<noteq> PosInf)"
| "f_gt (Val a) (Val b) = (b < a)"
| "f_gt (Val a) PosInf = False"
| "f_gt (Val a) NegInf = True"

text \<open>\<^verbatim>\<open>np.maximum\<close>, the step of the reduction \<^verbatim>\<open>np.max\<close>: NaN propagates.\<close>

definition f_max :: "f64 \<Rightarrow> f64 \<Rightarrow> f64" where
  "f_max a b = (if a = NaN \<or> b = NaN then NaN else if f_gt b a then b else a)"

text \<open>
  Division \<^verbatim>\<open>a / b\<close> of doubles. Numpy raises nothing on a zero divisor (it warns):
  \<^verbatim>\<open>0.0 / 0.0\<close> is NaN and \<^verbatim>\<open>x / 0.0\<close> is an infinity. Every divisor of the program
  is a positive constant or a maximum of absolute values, so a zero divisor is \<^verbatim>\<open>+0.0\<close>.
\<close>

fun f_div :: "f64 \<Rightarrow> f64 \<Rightarrow> f64" where
  "f_div NaN b = NaN"
| "f_div a NaN = NaN"
| "f_div (Val a) (Val b) =
     (if b = 0 then (if a = 0 then NaN else if 0 < a then PosInf else NegInf)
      else Val (a / b))"
| "f_div (Val a) PosInf = Val 0"
| "f_div (Val a) NegInf = Val 0"
| "f_div PosInf (Val b) = (if 0 \<le> b then PosInf else NegInf)"
| "f_div NegInf (Val b) = (if 0 \<le> b then NegInf else PosInf)"
| "f_div PosInf PosInf = NaN"
| "f_div PosInf NegInf = NaN"
| "f_div NegInf PosInf = NaN"
| "f_div NegInf NegInf = NaN"

text \<open>\<^verbatim>\<open>np.abs(wav)\<close> and \<^verbatim>\<open>wav / d\<close> work element by element.\<close>

definition np_abs :: "f64 list \<Rightarrow> f64 list" where
  "np_abs wav = map f_abs wav"

definition np_div :: "f64 list \<Rightarrow> f64 \<Rightarrow> f64 list" where
  "np_div wav d = map (\<lambda>x. f_div x d) wav"

text \<open>\<^verbatim>\<open>np.max\<close> raises \<open>ValueError\<close> on an array of size zero.\<close>

fun np_max :: "f64 list \<Rightarrow> error + f64" where
  "np_max [] = Inl ValueError"
| "np_max (x # xs) = Inr (fold f_max xs x)"

section \<open>Bit depth and gain\<close>

text \<open>\<^verbatim>\<open>estimate_bit_depth\<close> (lines 67 to 81).\<close>

definition estimate_bit_depth :: "f64 list \<Rightarrow> error + string" where
  "estimate_bit_depth wav =
     (case np_max (np_abs wav) of
        Inl e \<Rightarrow> Inl e
      | Inr max_gain \<Rightarrow>
          Inr (if f_gt max_gain (Val 8388608) then ''int32''
               else if f_gt max_gain (Val 8) then ''int16''
               else ''float''))"

text \<open>
  The branches of \<^verbatim>\<open>generate_wav_file\<close> on the estimated bit depth (lines 93 to 102),
  as a function of the tag, so that the last branch can be looked at on its own.
\<close>

definition scale_by_bit_depth :: "string \<Rightarrow> f64 list \<Rightarrow> error + f64 list" where
  "scale_by_bit_depth training_data_bit_depth wav =
     (if training_data_bit_depth = ''int16'' then Inr (np_div wav (Val 32767))
      else if training_data_bit_depth = ''int32'' then Inr (np_div wav (Val 2147483647))
      else if training_data_bit_depth = ''float'' then Inr wav
      else Inl ValueError)"

text \<open>Lines 89 to 102 of \<^verbatim>\<open>generate_wav_file\<close>: estimate, then scale.\<close>

definition bit_depth_step :: "f64 list \<Rightarrow> error + f64 list" where
  "bit_depth_step wav =
     (case estimate_bit_depth wav of
        Inl e \<Rightarrow> Inl e
      | Inr training_data_bit_depth \<Rightarrow> scale_by_bit_depth training_data_bit_depth wav)"

text \<open>
  Lines 105 and 106: \<^verbatim>\<open>if config.gain_normalize: wav = wav / np.max(np.abs(wav))\<close>.
  There is no test of the maximum before the division.
\<close>

definition gain_step :: "bool \<Rightarrow> f64 list \<Rightarrow> error + f64 list" where
  "gain_step gain_normalize wav =
     (if gain_normalize
      then (case np_max (np_abs wav) of
              Inl e \<Rightarrow> Inl e
            | Inr m \<Rightarrow> Inr (np_div wav m))
      else Inr wav)"

text \<open>
  The samples that \<^verbatim>\<open>generate_wav_file\<close> hands to \<^verbatim>\<open>wavfile.write\<close> (lines 89 to 109).
  The cast to single precision of line 109 rounds; with exact arithmetic on finite
  values it is the identity.
\<close>

definition wav_samples :: "bool \<Rightarrow> f64 list \<Rightarrow> error + f64 list" where
  "wav_samples gain_normalize wav =
     (case bit_depth_step wav of
        Inl e \<Rightarrow> Inl e
      | Inr wav1 \<Rightarrow> gain_step gain_normalize wav1)"

section \<open>Strings\<close>

text \<open>
  A Python string is a list of characters; the characters modelled are the code points
  below 256. \<^verbatim>\<open>str.isspace\<close> holds there for the characters below, and
  \<^verbatim>\<open>str.splitlines\<close> breaks at those of \<open>py_linebreak\<close>.
\<close>

definition py_isspace :: "char \<Rightarrow> bool" where
  "py_isspace c \<longleftrightarrow>
     c \<in> {CHR 0x09, CHR 0x0A, CHR 0x0B, CHR 0x0C, CHR 0x0D, CHR 0x1C, CHR 0x1D,
          CHR 0x1E, CHR 0x1F, CHR 0x20, CHR 0x85, CHR 0xA0}"

definition py_linebreak :: "char \<Rightarrow> bool" where
  "py_linebreak c \<longleftrightarrow>
     c \<in> {CHR 0x0A, CHR 0x0B, CHR 0x0C, CHR 0x0D, CHR 0x1C, CHR 0x1D, CHR 0x1E,
          CHR 0x85}"

text \<open>
  \<^verbatim>\<open>s.split()\<close> with no argument: the maximal runs of characters that are not
  whitespace. \<open>cur\<close> is the run being read.
\<close>

fun split_from :: "string \<Rightarrow> string \<Rightarrow> string list" where
  "split_from cur [] = (if cur = [] then [] else [cur])"
| "split_from cur (c # cs) =
     (if py_isspace c
      then (if cur = [] then split_from [] cs else cur # split_from [] cs)
      else split_from (cur @ [c]) cs)"

definition py_split :: "string \<Rightarrow> string list" where
  "py_split s = split_from [] s"

text \<open>
  \<^verbatim>\<open>s.splitlines()\<close>: the lines without their line breaks; a carriage return followed
  by a line feed is one break, and a break at the very end opens no further line.
\<close>

fun splitlines_from :: "string \<Rightarrow> string \<Rightarrow> string list" where
  "splitlines_from cur [] = (if cur = [] then [] else [cur])"
| "splitlines_from cur (c # cs) =
     (if c = CHR 0x0D \<and> cs \<noteq> [] \<and> hd cs = CHR 0x0A then cur # splitlines_from [] (tl cs)
      else if py_linebreak c then cur # splitlines_from [] cs
      else splitlines_from (cur @ [c]) cs)"

definition py_splitlines :: "string \<Rightarrow> string list" where
  "py_splitlines s = splitlines_from [] s"

text \<open>\<^verbatim>\<open>s.find(sub)\<close>: the index of the first occurrence of \<open>sub\<close>, or \<open>-1\<close>.\<close>

fun find_from :: "string \<Rightarrow> string \<Rightarrow> int \<Rightarrow> int" where
  "find_from sub [] i = (if sub = [] then i else - 1)"
| "find_from sub (c # cs) i =
     (if take (length sub) (c # cs) = sub then i else find_from sub cs (i + 1))"

definition py_find :: "string \<Rightarrow> string \<Rightarrow> int" where
  "py_find s sub = find_from sub s 0"

text \<open>\<^verbatim>\<open>sub in s\<close>: \<open>sub\<close> occurs in \<open>s\<close> (lemma \<open>py_contains_iff\<close>).\<close>

definition py_contains :: "string \<Rightarrow> string \<Rightarrow> bool" where
  "py_contains s sub \<longleftrightarrow> py_find s sub \<noteq> - 1"

text \<open>
  The slice \<^verbatim>\<open>s[a:b]\<close>: a negative bound counts from the end, and both bounds are
  clipped to the string.
\<close>

definition py_slice :: "string \<Rightarrow> int \<Rightarrow> int \<Rightarrow> string" where
  "py_slice s a b =
     (let n = int (length s);
          lo = max 0 (min n (if a < 0 then a + n else a));
          hi = max 0 (min n (if b < 0 then b + n else b))
      in take (nat (hi - lo)) (drop (nat lo) s))"

text \<open>
  \<^verbatim>\<open>s.replace(old, new)\<close>: every occurrence of \<open>old\<close>, found from the left without
  overlap, becomes \<open>new\<close>. With an empty \<open>old\<close>, \<open>new\<close> goes before every character
  and at the end.
\<close>

function replace_from :: "string \<Rightarrow> string \<Rightarrow> string \<Rightarrow> string" where
  "replace_from old new [] = []"
| "replace_from old new (c # cs) =
     (if old \<noteq> [] \<and> take (length old) (c # cs) = old
      then new @ replace_from old new (drop (length old) (c # cs))
      else c # replace_from old new cs)"
  by pat_completeness auto
termination
  by (relation "measure (\<lambda>(old, new, s). length s)") (auto simp: neq_Nil_conv)

definition py_replace :: "string \<Rightarrow> string \<Rightarrow> string \<Rightarrow> string" where
  "py_replace s old new =
     (if old = [] then new @ concat (map (\<lambda>c. c # new) s) else replace_from old new s)"

section \<open>The timing file\<close>

text \<open>
  The loop of lines 301 to 305 of \<^verbatim>\<open>hts2wav\<close>. The unpacking
  \<^verbatim>\<open>t_start, t_end, context = line.split()\<close> raises \<open>ValueError\<close> unless the line has
  exactly three fields; nothing catches it.
\<close>

fun timing_loop :: "string list \<Rightarrow> string \<Rightarrow> error + string" where
  "timing_loop [] s = Inr s"
| "timing_loop (line # lines) s =
     (case py_split line of
        [t_start, t_end, context] \<Rightarrow>
          timing_loop lines
            (s @ t_start @ '' '' @ t_end @ '' '' @
               py_slice context (py_find context ''-'' + 1) (py_find context ''+'') @
               ''\<newline>'')
      | _ \<Rightarrow> Inl ValueError)"

section \<open>Configuration\<close>

text \<open>
  The fields of the \<^verbatim>\<open>DictConfig\<close> that the modelled paths read. \<open>stage config typ\<close> is
  \<^verbatim>\<open>config[typ]\<close>; a field holding \<^verbatim>\<open>None\<close> is \<open>None\<close>.
\<close>

datatype stage_name = Timelag | Duration | Acoustic

record stage_config =
  stage_question_path :: "string option"

record config =
  ground_truth_duration :: bool
  gain_normalize :: bool
  sample_rate :: int
  question_path :: "string option"
  stage :: "stage_name \<Rightarrow> stage_config"

text \<open>
  \<^verbatim>\<open>set_each_question_path\<close> (lines 113 to 122): a stage without a question path gets
  the global one, whatever that is; no branch raises.
\<close>

definition set_question_path :: "stage_name \<Rightarrow> config \<Rightarrow> config" where
  "set_question_path typ config =
     (if stage_question_path (stage config typ) = None
      then config\<lparr>stage := (stage config)
             (typ := (stage config typ)\<lparr>stage_question_path := question_path config\<rparr>)\<rparr>
      else config)"

definition set_each_question_path :: "config \<Rightarrow> config" where
  "set_each_question_path config = fold set_question_path [Timelag, Duration, Acoustic] config"

text \<open>
  The question path that a stage has once \<^verbatim>\<open>set_each_question_path\<close> has run (lemma
  \<open>set_each_question_path_stage\<close>): its own if it has one, the global one otherwise.
\<close>

definition resolved_question_path :: "config \<Rightarrow> stage_name \<Rightarrow> string option" where
  "resolved_question_path config typ =
     (case stage_question_path (stage config typ) of
        None \<Rightarrow> question_path config
      | Some q \<Rightarrow> Some q)"

section \<open>The imported functions\<close>

text \<open>
  What \<^verbatim>\<open>synthesis\<close> calls in nnmnkwii, nnsvs and the vocoder, as parameters: each
  returns a value or the exception it raises, and is taken to leave its arguments as
  they are. The arguments kept are the ones computed
  in \<^verbatim>\<open>synthesis\<close>; the device, the models, their configurations and scalers, and the
  flags passed through from the configuration are fixed inside each function.
  \<open>'l\<close> is a label file, \<open>'b list\<close> the binary dictionary (one entry per question, so
  its length is \<^verbatim>\<open>len(binary_dict)\<close>), \<open>'c\<close> the continuous dictionary and \<open>'p\<close> a
  predicted array. \<open>hts_load\<close> is \<^verbatim>\<open>hts.load(label_path).round_()\<close>.
\<close>

record ('l, 'b, 'c, 'p) collab =
  hts_load :: "string \<Rightarrow> error + 'l"
  load_question_set :: "string option \<Rightarrow> error + ('b list \<times> 'c)"
  predict_timelag :: "'l \<Rightarrow> 'b list \<Rightarrow> 'c \<Rightarrow> int list \<Rightarrow> error + 'p"
  predict_duration :: "'l \<Rightarrow> 'p \<Rightarrow> 'b list \<Rightarrow> 'c \<Rightarrow> int list \<Rightarrow> error + 'p"
  postprocess_duration :: "'l \<Rightarrow> 'p \<Rightarrow> 'p \<Rightarrow> error + 'l"
  predict_acoustic :: "'l \<Rightarrow> 'b list \<Rightarrow> 'c \<Rightarrow> int list \<Rightarrow> error + 'p"
  gen_waveform ::
    "'l \<Rightarrow> 'p \<Rightarrow> 'b list \<Rightarrow> 'c \<Rightarrow> int \<Rightarrow> error + (f64 list \<times> f64 list \<times> f64 list \<times> f64 list)"

text \<open>
  A computation that calls imported functions yields the calls it made, in order, and
  its value or the exception that ended it.
\<close>

datatype call =
  HtsLoad string
| LoadQuestionSet "string option"
| PredictTimelag
| PredictDuration
| PostprocessDuration
| PredictAcoustic
| GenWaveform

type_synonym 'a traced = "call list \<times> (error + 'a)"

definition invoke :: "call \<Rightarrow> error + 'a \<Rightarrow> 'a traced" where
  "invoke ev r = ([ev], r)"

definition return_t :: "'a \<Rightarrow> 'a traced" where
  "return_t v = ([], Inr v)"

definition bind_t :: "'a traced \<Rightarrow> ('a \<Rightarrow> 'b traced) \<Rightarrow> 'b traced" where
  "bind_t m f =
     (case m of
        (t, Inl e) \<Rightarrow> (t, Inl e)
      | (t, Inr v) \<Rightarrow> (case f v of (t', r) \<Rightarrow> (t @ t', r)))"

section \<open>Synthesis\<close>

text \<open>\<^verbatim>\<open>np.arange(start, stop)\<close> on integers.\<close>

definition np_arange :: "int \<Rightarrow> int \<Rightarrow> int list" where
  "np_arange start stop = [start..stop - 1]"

text \<open>\<^verbatim>\<open>load_qst\<close> (lines 125 to 134).\<close>

definition load_qst ::
  "('l, 'b, 'c, 'p) collab \<Rightarrow> string option \<Rightarrow> ('b list \<times> 'c \<times> int list \<times> int) traced" where
  "load_qst c question_path_arg =
     bind_t (invoke (LoadQuestionSet question_path_arg) (load_question_set c question_path_arg))
       (\<lambda>(binary_dict, continuous_dict).
          return_t (binary_dict, continuous_dict,
                    np_arange (int (length binary_dict)) (int (length binary_dict) + 3),
                    int (length binary_dict) + 1))"

text \<open>
  Lines 150 to 184 of \<^verbatim>\<open>synthesis\<close>: the labels whose durations the acoustic model
  is run on.
\<close>

definition duration_modified ::
  "('l, 'b, 'c, 'p) collab \<Rightarrow> config \<Rightarrow> 'l \<Rightarrow> 'l traced" where
  "duration_modified c config labels =
     (if ground_truth_duration config then return_t labels
      else
        bind_t (load_qst c (stage_question_path (stage config Timelag)))
          (\<lambda>(timelag_binary_dict, timelag_continuous_dict, timelag_pitch_indices, _).
        bind_t (invoke PredictTimelag
                  (predict_timelag c labels timelag_binary_dict timelag_continuous_dict
                     timelag_pitch_indices))
          (\<lambda>lag.
        bind_t (load_qst c (stage_question_path (stage config Duration)))
          (\<lambda>(duration_binary_dict, duration_continuous_dict, duration_pitch_indices, _).
        bind_t (invoke PredictDuration
                  (predict_duration c labels lag duration_binary_dict duration_continuous_dict
                     duration_pitch_indices))
          (\<lambda>durations.
        invoke PostprocessDuration (postprocess_duration c labels durations lag))))))"

text \<open>\<^verbatim>\<open>synthesis\<close> (lines 137 to 218).\<close>

definition synthesis ::
  "('l, 'b, 'c, 'p) collab \<Rightarrow> config \<Rightarrow> string \<Rightarrow>
     ('l \<times> f64 list \<times> f64 list \<times> f64 list \<times> f64 list) traced" where
  "synthesis c config0 label_path_arg =
     bind_t (invoke (HtsLoad label_path_arg) (hts_load c label_path_arg))
       (\<lambda>labels.
     let config = set_each_question_path config0 in
     bind_t (duration_modified c config labels)
       (\<lambda>duration_modified_labels.
     bind_t (load_qst c (stage_question_path (stage config Acoustic)))
       (\<lambda>(acoustic_binary_dict, acoustic_continuous_dict, acoustic_pitch_indices,
          acoustic_pitch_idx).
     bind_t (invoke PredictAcoustic
               (predict_acoustic c duration_modified_labels acoustic_binary_dict
                  acoustic_continuous_dict acoustic_pitch_indices))
       (\<lambda>acoustic_features.
     bind_t (invoke GenWaveform
               (gen_waveform c duration_modified_labels acoustic_features
                  acoustic_binary_dict acoustic_continuous_dict acoustic_pitch_idx))
       (\<lambda>(f0, mgc, bap, generated_waveform).
     return_t (duration_modified_labels, f0, mgc, bap, generated_waveform))))))"

section \<open>The files written\<close>

text \<open>
  The file system is a map from paths to contents, with the list of the paths opened
  for writing, in order. Opening a file for writing empties it; \<open>writable\<close> says which
  paths can be opened, and opening another one raises \<open>OSError\<close>. \<open>storable\<close> says
  for which paths the write to the open file succeeds; elsewhere the write raises
  \<open>OSError\<close> and the file, which is closed all the same, holds \<open>Partial\<close>: an unknown
  part of the data.
\<close>

datatype content = Empty | Partial | Text string | Float64 "f64 list" | Wave int "f64 list"

record world =
  files :: "string \<rightharpoonup> content"
  opened :: "string list"

type_synonym step = "world \<Rightarrow> world \<times> (error + unit)"

definition open_w :: "string \<Rightarrow> world \<Rightarrow> world" where
  "open_w path w = w\<lparr>files := (files w)(path \<mapsto> Empty), opened := opened w @ [path]\<rparr>"

definition put :: "string \<Rightarrow> content \<Rightarrow> world \<Rightarrow> world" where
  "put path data w = w\<lparr>files := (files w)(path \<mapsto> data)\<rparr>"

text \<open>One statement after the other: an exception ends the sequence where it is raised.\<close>

definition and_then :: "step \<Rightarrow> step \<Rightarrow> step" where
  "and_then m k w = (case m w of (w', Inl e) \<Rightarrow> (w', Inl e) | (w', Inr _) \<Rightarrow> k w')"

text \<open>Lines 299 to 306: the timing file is opened, the text is built, then written.\<close>

definition write_timing ::
  "(string \<Rightarrow> bool) \<Rightarrow> (string \<Rightarrow> bool) \<Rightarrow> string \<Rightarrow> string \<Rightarrow> step" where
  "write_timing writable storable path label_text w =
     (if \<not> writable path then (w, Inl OSError)
      else
        let w1 = open_w path w in
        (case timing_loop (py_splitlines label_text) [] of
           Inl e \<Rightarrow> (w1, Inl e)
         | Inr s \<Rightarrow>
             if \<not> storable path then (put path Partial w1, Inl OSError)
             else (put path (Text s) w1, Inr ())))"

text \<open>Lines 307 to 312: one array written as 64-bit floats, with no header.\<close>

definition dump ::
  "(string \<Rightarrow> bool) \<Rightarrow> (string \<Rightarrow> bool) \<Rightarrow> string \<Rightarrow> f64 list \<Rightarrow> step" where
  "dump writable storable path arr w =
     (if \<not> writable path then (w, Inl OSError)
      else if \<not> storable path then (put path Partial (open_w path w), Inl OSError)
      else (put path (Float64 arr) (open_w path w), Inr ()))"

text \<open>
  \<^verbatim>\<open>generate_wav_file\<close> (lines 84 to 110): the samples are computed first, then
  \<^verbatim>\<open>wavfile.write\<close> opens and writes the file.
\<close>

definition generate_wav_file ::
  "(string \<Rightarrow> bool) \<Rightarrow> (string \<Rightarrow> bool) \<Rightarrow> config \<Rightarrow> f64 list \<Rightarrow> string \<Rightarrow> step" where
  "generate_wav_file writable storable config wav out_wav_path_arg w =
     (case wav_samples (gain_normalize config) wav of
        Inl e \<Rightarrow> (w, Inl e)
      | Inr data \<Rightarrow>
          if \<not> writable out_wav_path_arg then (w, Inl OSError)
          else if \<not> storable out_wav_path_arg
          then (put out_wav_path_arg Partial (open_w out_wav_path_arg w), Inl OSError)
          else (put out_wav_path_arg (Wave (sample_rate config) data)
                  (open_w out_wav_path_arg w), Inr ()))"

text \<open>
  Lines 298 to 314 of \<^verbatim>\<open>hts2wav\<close>. \<open>label_text\<close> is
  \<^verbatim>\<open>str(duration_modified_labels)\<close>, which nnmnkwii computes.
\<close>

definition write_outputs ::
  "(string \<Rightarrow> bool) \<Rightarrow> (string \<Rightarrow> bool) \<Rightarrow> config \<Rightarrow> string \<Rightarrow> string \<Rightarrow>
     f64 list \<Rightarrow> f64 list \<Rightarrow> f64 list \<Rightarrow> f64 list \<Rightarrow> step" where
  "write_outputs writable storable config out_wav_path_arg label_text f0 sp bap wav =
     and_then (write_timing writable storable
                 (py_replace out_wav_path_arg ''.wav'' ''_timing.lab'') label_text)
    (and_then (dump writable storable (py_replace out_wav_path_arg ''.wav'' ''.f0'') f0)
    (and_then (dump writable storable (py_replace out_wav_path_arg ''.wav'' ''.mgc'') sp)
    (and_then (dump writable storable (py_replace out_wav_path_arg ''.wav'' ''.bap'') bap)
              (generate_wav_file writable storable config wav out_wav_path_arg))))"

text \<open>
  The file system once the listed files have been opened and written, one after the
  other.
\<close>

fun after_writes :: "(string \<times> content) list \<Rightarrow> world \<Rightarrow> world" where
  "after_writes [] w = w"
| "after_writes ((path, data) # rest) w = after_writes rest (put path data (open_w path w))"

text \<open>The five paths that \<open>write_outputs\<close> opens, in the order of the source.\<close>

definition output_paths :: "string \<Rightarrow> string list" where
  "output_paths out_wav_path_arg =
     [py_replace out_wav_path_arg ''.wav'' ''_timing.lab'',
      py_replace out_wav_path_arg ''.wav'' ''.f0'',
      py_replace out_wav_path_arg ''.wav'' ''.mgc'',
      py_replace out_wav_path_arg ''.wav'' ''.bap'',
      out_wav_path_arg]"

text \<open>
  The four files that \<open>write_outputs\<close> writes before the audio file, each with what a
  run without failure leaves in it; \<open>s\<close> is the text built by \<open>timing_loop\<close>.
\<close>

definition earlier_files ::
  "string \<Rightarrow> string \<Rightarrow> f64 list \<Rightarrow> f64 list \<Rightarrow> f64 list \<Rightarrow> (string \<times> content) list" where
  "earlier_files out_wav_path_arg s f0 sp bap =
     [(py_replace out_wav_path_arg ''.wav'' ''_timing.lab'', Text s),
      (py_replace out_wav_path_arg ''.wav'' ''.f0'', Float64 f0),
      (py_replace out_wav_path_arg ''.wav'' ''.mgc'', Float64 sp),
      (py_replace out_wav_path_arg ''.wav'' ''.bap'', Float64 bap)]"

section \<open>A concrete run\<close>

text \<open>
  Stand-ins for the imported functions, for evaluating the definitions: a label file is
  its text, the question set has two binary questions, and the loader opens its path,
  which raises \<open>TypeError\<close> when the path is \<^verbatim>\<open>None\<close>, as \<^verbatim>\<open>open(None)\<close> does.
\<close>

definition ex_collab :: "(string, string, unit, int list) collab" where
  "ex_collab =
     \<lparr>hts_load = (\<lambda>p. Inr ''0 50 a^b-c+d=e\<newline>''),
      load_question_set =
        (\<lambda>p. case p of None \<Rightarrow> Inl (Raised ''TypeError'') | Some _ \<Rightarrow> Inr ([''q0'', ''q1''], ())),
      predict_timelag = (\<lambda>l b c i. Inr [0]),
      predict_duration = (\<lambda>l lag b c i. Inr [10]),
      postprocess_duration = (\<lambda>l d lag. Inr ''0 50 a^b-c+d=e\<newline>''),
      predict_acoustic = (\<lambda>l b c i. Inr [1, 2]),
      gen_waveform = (\<lambda>l a b c i. Inr ([Val 440], [Val 1], [Val 0], [Val 16000, Val (- 8000)]))\<rparr>"

definition ex_config :: config where
  "ex_config =
     \<lparr>ground_truth_duration = True, gain_normalize = False, sample_rate = 48000,
      question_path = Some ''q.hed'',
      stage = (\<lambda>typ. \<lparr>stage_question_path = None\<rparr>)\<rparr>"

text \<open>
  The same configuration with predicted durations and no global question path: first
  with no question path at all, then with one for the time-lag stage only.
\<close>

definition ex_config_unset :: config where
  "ex_config_unset = ex_config\<lparr>ground_truth_duration := False, question_path := None\<rparr>"

definition ex_config_timelag_only :: config where
  "ex_config_timelag_only =
     ex_config_unset\<lparr>stage :=
       (\<lambda>typ. \<lparr>stage_question_path = (if typ = Timelag then Some ''timelag.hed'' else None)\<rparr>)\<rparr>"

text \<open>
  Every path can be opened and written; on the second disk the write to
  \<^verbatim>\<open>song.wav\<close> fails. No file exists before the run.
\<close>

definition ex_writable :: "string \<Rightarrow> bool" where
  "ex_writable path = True"

definition ex_storable :: "string \<Rightarrow> bool" where
  "ex_storable path = True"

definition ex_storable_full :: "string \<Rightarrow> bool" where
  "ex_storable_full path = (path \<noteq> ''song.wav'')"

text \<open>A disk on which \<^verbatim>\<open>song.mgc\<close> cannot be opened.\<close>

definition ex_writable_locked :: "string \<Rightarrow> bool" where
  "ex_writable_locked path = (path \<noteq> ''song.mgc'')"

definition ex_world :: world where
  "ex_world = \<lparr>files = Map.empty, opened = []\<rparr>"

section \<open>Properties of the bit-depth step\<close>

lemma fold_f_max_Val: "fold f_max (map Val rs) (Val r) = Val (fold max rs r)"
  by (induction rs arbitrary: r) (simp_all add: f_max_def max_def)

lemma np_max_abs_Val:
  assumes "rs \<noteq> []"
  shows "np_max (np_abs (map Val rs)) = Inr (Val (Max (abs ` set rs)))"
proof -
  from assms obtain r rs' where rs: "rs = r # rs'"
    by (cases rs) auto
  have "fold max (map abs rs') \<bar>r\<bar> = Max (set (map abs (r # rs')))"
    using Max.set_eq_fold [of "\<bar>r\<bar>" "map abs rs'"] by simp
  then show ?thesis
    using rs fold_f_max_Val [of "map abs rs'" "\<bar>r\<bar>"]
    by (simp add: np_abs_def comp_def)
qed

lemma bit_depth_step_cases:
  assumes "np_max (np_abs wav) = Inr max_gain"
  shows "bit_depth_step wav =
     Inr (if f_gt max_gain (Val 8388608) then np_div wav (Val 2147483647)
          else if f_gt max_gain (Val 8) then np_div wav (Val 32767)
          else wav)"
  using assms by (simp add: bit_depth_step_def estimate_bit_depth_def scale_by_bit_depth_def)

text \<open>
  C1. Whenever the maximum absolute sample \<open>max_gain\<close> exists, the bit-depth step of
  \<^verbatim>\<open>generate_wav_file\<close> is the piecewise function of it: above 8388608 every sample is
  divided by 2147483647; otherwise, above 8, every sample is divided by 32767; otherwise
  the samples are left as they are. Both comparisons are strict. Without gain
  normalisation these are the samples written.
\<close>

theorem bit_depth_step_piecewise:
  assumes "np_max (np_abs wav) = Inr max_gain"
  shows "bit_depth_step wav =
           Inr (if f_gt max_gain (Val 8388608) then map (\<lambda>x. f_div x (Val 2147483647)) wav
                else if f_gt max_gain (Val 8) then map (\<lambda>x. f_div x (Val 32767)) wav
                else wav)
         \<and> wav_samples False wav = bit_depth_step wav"
proof
  show "bit_depth_step wav =
           Inr (if f_gt max_gain (Val 8388608) then map (\<lambda>x. f_div x (Val 2147483647)) wav
                else if f_gt max_gain (Val 8) then map (\<lambda>x. f_div x (Val 32767)) wav
                else wav)"
    using bit_depth_step_cases [OF assms] by (simp add: np_div_def)
  then show "wav_samples False wav = bit_depth_step wav"
    by (simp add: wav_samples_def gain_step_def)
qed

theorem bit_depth_step_piecewise_witness:
  "np_max (np_abs [Val 8388608, Val (- 3)]) = Inr (Val 8388608)
   \<and> bit_depth_step [Val 8388608, Val (- 3)] = Inr [Val (8388608 / 32767), Val (- 3 / 32767)]
   \<and> np_max (np_abs [Val 5, Val (- 8388609)]) = Inr (Val 8388609)
   \<and> bit_depth_step [Val 5, Val (- 8388609)]
       = Inr [Val (5 / 2147483647), Val (- 8388609 / 2147483647)]
   \<and> np_max (np_abs [Val (- 8), Val 0]) = Inr (Val 8)
   \<and> bit_depth_step [Val (- 8), Val 0] = Inr [Val (- 8), Val 0]
   \<and> np_max (np_abs [Val 9]) = Inr (Val 9)
   \<and> wav_samples False [Val 9] = Inr [Val (9 / 32767)]"
proof -
  have a: "np_max (np_abs [Val 8388608, Val (- 3)]) = Inr (Val 8388608)"
    by (simp add: np_abs_def f_max_def)
  have b: "np_max (np_abs [Val 5, Val (- 8388609)]) = Inr (Val 8388609)"
    by (simp add: np_abs_def f_max_def)
  have c: "np_max (np_abs [Val (- 8), Val 0]) = Inr (Val 8)"
    by (simp add: np_abs_def f_max_def)
  have d: "np_max (np_abs [Val 9]) = Inr (Val 9)"
    by (simp add: np_abs_def)
  show ?thesis
    using a b c d bit_depth_step_piecewise [OF a] bit_depth_step_piecewise [OF b]
      bit_depth_step_piecewise [OF c] bit_depth_step_piecewise [OF d]
    by simp
qed

section \<open>Properties of gain normalisation\<close>

lemma bit_depth_step_Val:
  assumes ne: "rs \<noteq> []"
  shows "\<exists>k>0. bit_depth_step (map Val rs) = Inr (map Val (map (\<lambda>r. r / k) rs))"
proof -
  let ?g = "Val (Max (abs ` set rs))"
  have g: "np_max (np_abs (map Val rs)) = Inr ?g"
    using ne by (rule np_max_abs_Val)
  consider (i32) "f_gt ?g (Val 8388608)"
    | (i16) "\<not> f_gt ?g (Val 8388608)" "f_gt ?g (Val 8)"
    | (flt) "\<not> f_gt ?g (Val 8388608)" "\<not> f_gt ?g (Val 8)"
    by blast
  then show ?thesis
  proof cases
    case i32
    then have "bit_depth_step (map Val rs) = Inr (map Val (map (\<lambda>r. r / 2147483647) rs))"
      using bit_depth_step_cases [OF g] by (simp add: np_div_def)
    then show ?thesis by (intro exI [of _ 2147483647]) simp
  next
    case i16
    then have "bit_depth_step (map Val rs) = Inr (map Val (map (\<lambda>r. r / 32767) rs))"
      using bit_depth_step_cases [OF g] by (simp add: np_div_def)
    then show ?thesis by (intro exI [of _ 32767]) simp
  next
    case flt
    then have "bit_depth_step (map Val rs) = Inr (map Val (map (\<lambda>r. r / 1) rs))"
      using bit_depth_step_cases [OF g] by simp
    then show ?thesis by (intro exI [of _ 1]) simp
  qed
qed

lemma Max_abs_pos:
  assumes "\<exists>r\<in>set rs. r \<noteq> (0::real)"
  shows "0 < Max (abs ` set rs)"
proof -
  from assms obtain r where r: "r \<in> set rs" "r \<noteq> 0" by blast
  then have "\<bar>r\<bar> \<le> Max (abs ` set rs)" by (intro Max_ge) auto
  moreover have "0 < \<bar>r\<bar>" using r by simp
  ultimately show ?thesis by linarith
qed

lemma Max_abs_scale:
  assumes "rs \<noteq> []" and "0 < (k::real)"
  shows "Max (abs ` set (map (\<lambda>r. r / k) rs)) = Max (abs ` set rs) / k"
proof -
  have fin: "finite (abs ` set rs)" and ne: "abs ` set rs \<noteq> {}"
    using assms(1) by auto
  have "abs ` set (map (\<lambda>r. r / k) rs) = (\<lambda>a. a / k) ` (abs ` set rs)"
    using assms(2) by (auto simp: image_iff abs_divide intro!: bexI)
  also have "Max \<dots> = Max (abs ` set rs) / k"
    using assms(2)
    by (intro mono_Max_commute [symmetric] fin ne monoI) (simp add: divide_right_mono)
  finally show ?thesis .
qed

lemma gain_step_Val:
  assumes ne: "rs \<noteq> []" and nz: "\<exists>r\<in>set rs. r \<noteq> (0::real)"
  shows "gain_step True (map Val rs) = Inr (map (\<lambda>r. Val (r / Max (abs ` set rs))) rs)"
    and "np_max (np_abs (map (\<lambda>r. Val (r / Max (abs ` set rs))) rs)) = Inr (Val 1)"
proof -
  let ?m = "Max (abs ` set rs)"
  have m: "0 < ?m" using nz by (rule Max_abs_pos)
  let ?ys = "map (\<lambda>r. r / ?m) rs"
  show "gain_step True (map Val rs) = Inr (map (\<lambda>r. Val (r / ?m)) rs)"
    using m np_max_abs_Val [OF ne] by (simp add: gain_step_def np_div_def)
  have "Max (abs ` set ?ys) = ?m / ?m"
    using ne m by (rule Max_abs_scale)
  then have "Max (abs ` set ?ys) = 1" using m by simp
  moreover have "?ys \<noteq> []" using ne by simp
  ultimately have "np_max (np_abs (map Val ?ys)) = Inr (Val 1)"
    using np_max_abs_Val [of ?ys] by simp
  then show "np_max (np_abs (map (\<lambda>r. Val (r / ?m)) rs)) = Inr (Val 1)"
    by (simp add: comp_def)
qed

text \<open>
  C2, as the claim states it, fails twice. On samples that are all zero the division
  is not skipped: the maximum is zero, every sample is divided by it, and the output
  is NaN throughout instead of zero. And on samples that are not all finite the
  maximum absolute value of the output is not 1: with an infinite sample the maximum
  is infinite, the infinite sample becomes NaN and the finite ones zero; with a NaN
  sample the maximum is NaN and so is every sample of the output.
\<close>

theorem gain_normalize_zero_counterexample:
  "wav_samples True [Val 0, Val 0] = Inr [NaN, NaN]
   \<and> wav_samples True [Val 0, Val 0] \<noteq> Inr [Val 0, Val 0]
   \<and> wav_samples True [PosInf, Val 1] = Inr [NaN, Val 0]
   \<and> np_max (np_abs [NaN, Val 0]) = Inr NaN
   \<and> wav_samples True [NaN, Val 1] = Inr [NaN, NaN]
   \<and> np_max (np_abs [NaN, NaN]) = Inr NaN"
  by (simp add: wav_samples_def bit_depth_step_def estimate_bit_depth_def
      scale_by_bit_depth_def gain_step_def np_abs_def np_div_def f_max_def)

text \<open>
  C2, amended. With \<^verbatim>\<open>gain_normalize\<close> set, for finite samples that are not all zero,
  the samples written are the samples after bit-depth correction, each divided by the
  maximum absolute value of these; this is every sample divided by the maximum
  absolute value of the input, and the maximum absolute value of the result is
  exactly 1.
\<close>

theorem gain_normalize_unit_peak:
  assumes ne: "rs \<noteq> []" and nz: "\<exists>r\<in>set rs. r \<noteq> (0::real)"
  shows "\<exists>wav1 m.
           bit_depth_step (map Val rs) = Inr wav1
           \<and> np_max (np_abs wav1) = Inr m
           \<and> wav_samples True (map Val rs) = Inr (map (\<lambda>x. f_div x m) wav1)
           \<and> wav_samples True (map Val rs) = Inr (map (\<lambda>r. Val (r / Max (abs ` set rs))) rs)
           \<and> np_max (np_abs (map (\<lambda>r. Val (r / Max (abs ` set rs))) rs)) = Inr (Val 1)"
proof -
  let ?M = "Max (abs ` set rs)"
  have M: "0 < ?M" using nz by (rule Max_abs_pos)
  from bit_depth_step_Val [OF ne] obtain k where k: "0 < k"
    and b: "bit_depth_step (map Val rs) = Inr (map Val (map (\<lambda>r. r / k) rs))" by blast
  let ?rs1 = "map (\<lambda>r. r / k) rs"
  have ne1: "?rs1 \<noteq> []" using ne by simp
  have nz1: "\<exists>r\<in>set ?rs1. r \<noteq> 0" using nz k by auto
  have m1: "Max (abs ` set ?rs1) = ?M / k"
    using ne k by (rule Max_abs_scale)
  have peak: "np_max (np_abs (map Val ?rs1)) = Inr (Val (?M / k))"
    using np_max_abs_Val [OF ne1] m1 by simp
  have pos: "?M / k \<noteq> 0" using M k by simp
  have "gain_step True (map Val ?rs1) = Inr (map (\<lambda>r. Val (r / (?M / k))) ?rs1)"
    using gain_step_Val(1) [OF ne1 nz1] m1 by simp
  also have "map (\<lambda>r. Val (r / (?M / k))) ?rs1 = map (\<lambda>r. Val (r / ?M)) rs"
    using k by (simp add: comp_def)
  finally have g: "gain_step True (map Val ?rs1) = Inr (map (\<lambda>r. Val (r / ?M)) rs)" .
  have d: "map (\<lambda>x. f_div x (Val (?M / k))) (map Val ?rs1) = map (\<lambda>r. Val (r / ?M)) rs"
    using k pos by (simp add: comp_def)
  have w: "wav_samples True (map Val rs) = Inr (map (\<lambda>r. Val (r / ?M)) rs)"
    using b g by (simp add: wav_samples_def)
  show ?thesis
    using b peak w d gain_step_Val(2) [OF ne nz]
    by (intro exI [of _ "map Val ?rs1"] exI [of _ "Val (?M / k)"]) simp
qed

theorem gain_normalize_unit_peak_witness:
  "[16000, - 8000] \<noteq> ([] :: real list) \<and> (\<exists>r\<in>set [16000, - 8000 :: real]. r \<noteq> 0)
   \<and> bit_depth_step (map Val [16000, - 8000]) = Inr [Val (16000 / 32767), Val (- 8000 / 32767)]
   \<and> np_max (np_abs [Val (16000 / 32767), Val (- 8000 / 32767)]) = Inr (Val (16000 / 32767))
   \<and> wav_samples True (map Val [16000, - 8000]) = Inr [Val 1, Val (- 1 / 2)]
   \<and> np_max (np_abs [Val 1, Val (- 1 / 2)]) = Inr (Val 1)"
proof -
  have peak: "Max (abs ` set [16000, - 8000 :: real]) = 16000"
    by simp
  have b: "bit_depth_step (map Val [16000, - 8000])
             = Inr [Val (16000 / 32767), Val (- 8000 / 32767)]"
    by (simp add: bit_depth_step_def estimate_bit_depth_def scale_by_bit_depth_def np_abs_def
        np_div_def f_max_def)
  have m: "np_max (np_abs [Val (16000 / 32767), Val (- 8000 / 32767)]) = Inr (Val (16000 / 32767))"
    by (simp add: np_abs_def f_max_def)
  show ?thesis
    using b m gain_normalize_unit_peak [of "[16000, - 8000]"]
    by (simp add: peak np_abs_def f_max_def)
qed

section \<open>Totality of the bit-depth estimate\<close>

text \<open>
  C8, as the claim states it, fails: \<^verbatim>\<open>estimate_bit_depth\<close> does not return on the
  array of size zero, where \<^verbatim>\<open>np.max\<close> raises \<open>ValueError\<close>.
\<close>

theorem estimate_bit_depth_empty_counterexample:
  "estimate_bit_depth [] = Inl ValueError"
  by (simp add: estimate_bit_depth_def np_abs_def)

text \<open>
  C8, amended. On every array that is not empty \<^verbatim>\<open>estimate_bit_depth\<close> returns one of
  the three tags \<^verbatim>\<open>int32\<close>, \<^verbatim>\<open>int16\<close> and \<^verbatim>\<open>float\<close>, so the bit-depth step returns
  samples and its last branch is not reached; and on any other tag that branch raises
  \<open>ValueError\<close> instead of choosing a scale.
\<close>

theorem estimate_bit_depth_buckets:
  "(wav \<noteq> [] \<longrightarrow>
      estimate_bit_depth wav \<in> {Inr ''int32'', Inr ''int16'', Inr ''float''}
      \<and> (\<exists>ys. bit_depth_step wav = Inr ys))
   \<and> (d \<notin> {''int16'', ''int32'', ''float''} \<longrightarrow> scale_by_bit_depth d wav' = Inl ValueError)"
proof (intro conjI impI)
  assume ne: "wav \<noteq> []"
  then obtain g where g: "np_max (np_abs wav) = Inr g"
    by (cases wav) (simp_all add: np_abs_def)
  then show "estimate_bit_depth wav \<in> {Inr ''int32'', Inr ''int16'', Inr ''float''}"
    by (simp add: estimate_bit_depth_def)
  show "\<exists>ys. bit_depth_step wav = Inr ys"
    using bit_depth_step_cases [OF g] by simp
next
  assume "d \<notin> {''int16'', ''int32'', ''float''}"
  then show "scale_by_bit_depth d wav' = Inl ValueError"
    by (simp add: scale_by_bit_depth_def)
qed

theorem estimate_bit_depth_buckets_witness:
  "[Val 16000, NaN] \<noteq> []
   \<and> estimate_bit_depth [Val 16000, NaN] = Inr ''float''
   \<and> estimate_bit_depth [Val 16000, Val (- 3)] = Inr ''int16''
   \<and> estimate_bit_depth [PosInf] = Inr ''int32''
   \<and> (\<exists>ys. bit_depth_step [PosInf] = Inr ys)
   \<and> ''int24'' \<notin> {''int16'', ''int32'', ''float''}
   \<and> scale_by_bit_depth ''int24'' [Val 1] = Inl ValueError"
  using estimate_bit_depth_buckets [of "[Val 16000, NaN]" "''int24''" "[Val 1]"]
    estimate_bit_depth_buckets [of "[PosInf]" "''int24''" "[Val 1]"]
  by (simp add: estimate_bit_depth_def np_abs_def f_max_def)

section \<open>Properties of synthesis\<close>

lemma bind_t_Inl: "bind_t (t, Inl e) f = (t, Inl e)"
  by (simp add: bind_t_def)

lemma bind_t_Inr: "bind_t (t, Inr v) f = (t @ fst (f v), snd (f v))"
  by (simp add: bind_t_def split: prod.splits)

lemmas traced_simps = bind_t_Inl bind_t_Inr invoke_def return_t_def

lemma set_question_path_flags:
  "ground_truth_duration (set_question_path typ config) = ground_truth_duration config"
  "question_path (set_question_path typ config) = question_path config"
  by (simp_all add: set_question_path_def)

lemma set_each_question_path_ground_truth:
  "ground_truth_duration (set_each_question_path config) = ground_truth_duration config"
  by (simp add: set_each_question_path_def set_question_path_flags)

lemma set_each_question_path_stage:
  "stage_question_path (stage (set_each_question_path config) typ) =
     resolved_question_path config typ"
  by (cases "typ")
    (auto simp: set_each_question_path_def set_question_path_def resolved_question_path_def
      split: option.splits)

lemma load_qst_Inl:
  "load_question_set c q = Inl e \<Longrightarrow> load_qst c q = ([LoadQuestionSet q], Inl e)"
  by (simp add: load_qst_def traced_simps)

lemma load_qst_Inr:
  "load_question_set c q = Inr (b, cd) \<Longrightarrow>
   load_qst c q =
     ([LoadQuestionSet q],
      Inr (b, cd, [int (length b), int (length b) + 1, int (length b) + 2], int (length b) + 1))"
  by (simp add: load_qst_def traced_simps np_arange_def upto_rec1)

lemma duration_modified_ground_truth:
  "ground_truth_duration config \<Longrightarrow> duration_modified c config labels = ([], Inr labels)"
  by (simp add: duration_modified_def return_t_def)

lemma synthesis_ground_truth:
  assumes "ground_truth_duration config"
  shows "synthesis c config p =
    (case hts_load c p of
       Inl e \<Rightarrow> ([HtsLoad p], Inl e)
     | Inr labels \<Rightarrow>
         (let q = resolved_question_path config Acoustic in
          case load_question_set c q of
            Inl e \<Rightarrow> ([HtsLoad p, LoadQuestionSet q], Inl e)
          | Inr (b, cd) \<Rightarrow>
              (case predict_acoustic c labels b cd
                      [int (length b), int (length b) + 1, int (length b) + 2] of
                 Inl e \<Rightarrow> ([HtsLoad p, LoadQuestionSet q, PredictAcoustic], Inl e)
               | Inr a \<Rightarrow>
                   (case gen_waveform c labels a b cd (int (length b) + 1) of
                      Inl e \<Rightarrow> ([HtsLoad p, LoadQuestionSet q, PredictAcoustic, GenWaveform], Inl e)
                    | Inr (f0, mgc, bap, wav) \<Rightarrow>
                        ([HtsLoad p, LoadQuestionSet q, PredictAcoustic, GenWaveform],
                         Inr (labels, f0, mgc, bap, wav))))))"
proof -
  let ?cfg = "set_each_question_path config"
  have g: "ground_truth_duration ?cfg"
    using assms by (simp add: set_each_question_path_ground_truth)
  show ?thesis
    using g
    by (auto simp: synthesis_def Let_def traced_simps
        duration_modified_ground_truth load_qst_Inl load_qst_Inr
        set_each_question_path_stage
        split: sum.splits prod.splits)
qed

text \<open>
  C3. With \<^verbatim>\<open>ground_truth_duration\<close> set, the timing step of \<^verbatim>\<open>synthesis\<close> returns the
  loaded labels as they are and calls nothing; in the whole of \<^verbatim>\<open>synthesis\<close> neither
  the time-lag predictor nor the duration predictor (nor the duration post-processing)
  is called, and the labels returned are the ones \<^verbatim>\<open>hts.load\<close> gave.
\<close>

theorem ground_truth_duration_passthrough:
  assumes "ground_truth_duration config"
  shows "duration_modified c (set_each_question_path config) labels = ([], Inr labels)
         \<and> PredictTimelag \<notin> set (fst (synthesis c config p))
         \<and> PredictDuration \<notin> set (fst (synthesis c config p))
         \<and> PostprocessDuration \<notin> set (fst (synthesis c config p))
         \<and> (\<forall>out f0 mgc bap wav.
               snd (synthesis c config p) = Inr (out, f0, mgc, bap, wav) \<longrightarrow>
               hts_load c p = Inr out)"
proof -
  have "ground_truth_duration (set_each_question_path config)"
    using assms by (simp add: set_each_question_path_ground_truth)
  then have a: "duration_modified c (set_each_question_path config) labels = ([], Inr labels)"
    by (rule duration_modified_ground_truth)
  have b: "PredictTimelag \<notin> set (fst (synthesis c config p))
         \<and> PredictDuration \<notin> set (fst (synthesis c config p))
         \<and> PostprocessDuration \<notin> set (fst (synthesis c config p))"
    by (simp add: synthesis_ground_truth [OF assms] Let_def split: sum.splits prod.splits)
  have c: "\<forall>out f0 mgc bap wav.
               snd (synthesis c config p) = Inr (out, f0, mgc, bap, wav) \<longrightarrow>
               hts_load c p = Inr out"
    by (auto simp: synthesis_ground_truth [OF assms] Let_def split: sum.splits prod.splits)
  from a b c show ?thesis by blast
qed

lemma ex_config_resolved: "resolved_question_path ex_config typ = Some ''q.hed''"
  by (simp add: resolved_question_path_def ex_config_def)

lemma ex_synthesis:
  "synthesis ex_collab ex_config ''song.lab'' =
     ([HtsLoad ''song.lab'', LoadQuestionSet (Some ''q.hed''), PredictAcoustic, GenWaveform],
      Inr (''0 50 a^b-c+d=e\<newline>'', [Val 440], [Val 1], [Val 0], [Val 16000, Val (- 8000)]))"
proof -
  have g: "ground_truth_duration ex_config" by (simp add: ex_config_def)
  show ?thesis
    by (simp add: synthesis_ground_truth [OF g] ex_config_resolved ex_collab_def)
qed

theorem ground_truth_duration_passthrough_witness:
  "ground_truth_duration ex_config
   \<and> duration_modified ex_collab (set_each_question_path ex_config) ''0 50 a^b-c+d=e\<newline>''
       = ([], Inr ''0 50 a^b-c+d=e\<newline>'')
   \<and> fst (synthesis ex_collab ex_config ''song.lab'')
       = [HtsLoad ''song.lab'', LoadQuestionSet (Some ''q.hed''), PredictAcoustic, GenWaveform]
   \<and> PredictTimelag \<notin> set (fst (synthesis ex_collab ex_config ''song.lab''))
   \<and> PredictDuration \<notin> set (fst (synthesis ex_collab ex_config ''song.lab''))
   \<and> hts_load ex_collab ''song.lab'' = Inr ''0 50 a^b-c+d=e\<newline>''"
proof -
  have g: "ground_truth_duration ex_config" by (simp add: ex_config_def)
  show ?thesis
    using g ground_truth_duration_passthrough
      [OF g, of ex_collab "''0 50 a^b-c+d=e\<newline>''" "''song.lab''"]
    by (simp add: ex_synthesis)
qed

section \<open>Question sets\<close>

text \<open>
  C6, as the claim states it, fails in its second half: for a question set with two
  binary questions the pitch indices are 2, 3 and 4, and \<^verbatim>\<open>pitch_idx\<close> is 3, the second
  of them and not the first.
\<close>

theorem load_qst_pitch_idx_counterexample:
  "snd (load_qst ex_collab (Some ''q.hed'')) = Inr ([''q0'', ''q1''], (), [2, 3, 4], 3)
   \<and> (3 :: int) \<noteq> hd [2, 3, 4]"
proof -
  have "load_question_set ex_collab (Some ''q.hed'') = Inr ([''q0'', ''q1''], ())"
    by (simp add: ex_collab_def)
  from load_qst_Inr [OF this] show ?thesis by simp
qed

text \<open>
  C6, amended. For every question set that loads, \<^verbatim>\<open>load_qst\<close> returns the two
  dictionaries, \<^verbatim>\<open>pitch_indices\<close> equal to the three indices \<^verbatim>\<open>len(binary_dict)\<close>,
  \<^verbatim>\<open>len(binary_dict) + 1\<close>, \<^verbatim>\<open>len(binary_dict) + 2\<close>, and \<^verbatim>\<open>pitch_idx\<close> equal to
  \<^verbatim>\<open>len(binary_dict) + 1\<close>, the second of the three.
\<close>

theorem load_qst_pitch_indices:
  assumes "load_question_set c q = Inr (binary_dict, continuous_dict)"
  shows "\<exists>pitch_indices pitch_idx.
           load_qst c q =
             ([LoadQuestionSet q], Inr (binary_dict, continuous_dict, pitch_indices, pitch_idx))
           \<and> pitch_indices =
               [int (length binary_dict), int (length binary_dict) + 1, int (length binary_dict) + 2]
           \<and> pitch_idx = int (length binary_dict) + 1
           \<and> pitch_idx = pitch_indices ! 1"
  using load_qst_Inr [OF assms] by simp

theorem load_qst_pitch_indices_witness:
  "load_question_set ex_collab (Some ''q.hed'') = Inr ([''q0'', ''q1''], ())
   \<and> load_qst ex_collab (Some ''q.hed'') =
       ([LoadQuestionSet (Some ''q.hed'')], Inr ([''q0'', ''q1''], (), [2, 3, 4], 3))"
proof -
  have l: "load_question_set ex_collab (Some ''q.hed'') = Inr ([''q0'', ''q1''], ())"
    by (simp add: ex_collab_def)
  from load_qst_pitch_indices [OF l] show ?thesis using l by auto
qed

section \<open>Unset question paths\<close>

lemma synthesis_predicted:
  assumes "\<not> ground_truth_duration config" and "hts_load c p = Inr labels"
  shows "synthesis c config p =
    bind_t ([HtsLoad p], Inr labels)
      (\<lambda>labels.
         bind_t (duration_modified c (set_each_question_path config) labels)
           (\<lambda>duration_modified_labels.
              bind_t (load_qst c (resolved_question_path config Acoustic))
                (\<lambda>(b, cd, indices, idx).
                   bind_t (invoke PredictAcoustic
                             (predict_acoustic c duration_modified_labels b cd indices))
                     (\<lambda>a. bind_t (invoke GenWaveform
                                     (gen_waveform c duration_modified_labels a b cd idx))
                            (\<lambda>(f0, mgc, bap, wav).
                               return_t (duration_modified_labels, f0, mgc, bap, wav))))))"
  using assms by (simp add: synthesis_def invoke_def Let_def set_each_question_path_stage)

lemma duration_modified_timelag_unset:
  assumes "\<not> ground_truth_duration config"
    and "stage_question_path (stage config Timelag) = None"
    and "load_question_set c None = Inl e"
  shows "duration_modified c config labels = ([LoadQuestionSet None], Inl e)"
  using assms by (simp add: duration_modified_def load_qst_Inl bind_t_Inl)

lemma duration_modified_duration_unset:
  assumes "\<not> ground_truth_duration config"
    and "stage_question_path (stage config Timelag) = Some q"
    and "stage_question_path (stage config Duration) = None"
    and "load_question_set c (Some q) = Inr (b, cd)"
    and "predict_timelag c labels b cd
           [int (length b), int (length b) + 1, int (length b) + 2] = Inr lag"
    and "load_question_set c None = Inl e"
  shows "duration_modified c config labels =
           ([LoadQuestionSet (Some q), PredictTimelag, LoadQuestionSet None], Inl e)"
  using assms by (simp add: duration_modified_def load_qst_Inl load_qst_Inr traced_simps)

text \<open>
  C4, as the claim states it, fails: \<^verbatim>\<open>synthesis\<close> checks no path and raises no
  configuration error. With no question path anywhere, \<^verbatim>\<open>None\<close> is handed to the
  question-set loader and the exception is the loader's own, here the \<open>TypeError\<close> of
  opening \<^verbatim>\<open>None\<close>.
\<close>

theorem synthesis_unset_question_path_counterexample:
  "synthesis ex_collab ex_config_unset ''song.lab'' =
     ([HtsLoad ''song.lab'', LoadQuestionSet None], Inl (Raised ''TypeError''))
   \<and> snd (synthesis ex_collab ex_config_unset ''song.lab'') \<noteq> Inl (Raised ''ConfigurationError'')"
proof -
  have g: "\<not> ground_truth_duration ex_config_unset"
    by (simp add: ex_config_unset_def)
  have h: "hts_load ex_collab ''song.lab'' = Inr ''0 50 a^b-c+d=e\<newline>''"
    by (simp add: ex_collab_def)
  have "duration_modified ex_collab (set_each_question_path ex_config_unset)
          ''0 50 a^b-c+d=e\<newline>'' = ([LoadQuestionSet None], Inl (Raised ''TypeError''))"
    by (rule duration_modified_timelag_unset)
      (simp_all add: set_each_question_path_ground_truth set_each_question_path_stage
        resolved_question_path_def ex_config_unset_def ex_config_def ex_collab_def)
  then show ?thesis
    by (simp add: synthesis_predicted [OF g h] traced_simps)
qed

text \<open>
  C4, amended. If \<^verbatim>\<open>ground_truth_duration\<close> is false, the global question path is unset
  and the loader raises \<open>e\<close> on \<^verbatim>\<open>None\<close>, then \<^verbatim>\<open>synthesis\<close> fails with that same \<open>e\<close>:
  at the first call of the loader when the time-lag stage has no question path, and at
  its second call, after the time-lag prediction, when only the duration stage has none.
\<close>

theorem synthesis_unset_question_path:
  assumes "\<not> ground_truth_duration config"
    and "question_path config = None"
    and "hts_load c p = Inr labels"
    and "load_question_set c None = Inl e"
  shows "(stage_question_path (stage config Timelag) = None \<longrightarrow>
            synthesis c config p = ([HtsLoad p, LoadQuestionSet None], Inl e))
         \<and> (\<forall>q b cd lag.
               stage_question_path (stage config Timelag) = Some q
               \<and> stage_question_path (stage config Duration) = None
               \<and> load_question_set c (Some q) = Inr (b, cd)
               \<and> predict_timelag c labels b cd
                    [int (length b), int (length b) + 1, int (length b) + 2] = Inr lag \<longrightarrow>
               synthesis c config p =
                 ([HtsLoad p, LoadQuestionSet (Some q), PredictTimelag, LoadQuestionSet None],
                  Inl e))"
proof (intro conjI impI allI)
  let ?cfg = "set_each_question_path config"
  have g: "\<not> ground_truth_duration ?cfg"
    using assms(1) by (simp add: set_each_question_path_ground_truth)
  {
    assume "stage_question_path (stage config Timelag) = None"
    then have "stage_question_path (stage ?cfg Timelag) = None"
      using assms(2) by (simp add: set_each_question_path_stage resolved_question_path_def)
    from duration_modified_timelag_unset [OF g this assms(4)]
    show "synthesis c config p = ([HtsLoad p, LoadQuestionSet None], Inl e)"
      by (simp add: synthesis_predicted [OF assms(1) assms(3)] traced_simps)
  }
  {
    fix q b cd lag
    assume a: "stage_question_path (stage config Timelag) = Some q
               \<and> stage_question_path (stage config Duration) = None
               \<and> load_question_set c (Some q) = Inr (b, cd)
               \<and> predict_timelag c labels b cd
                    [int (length b), int (length b) + 1, int (length b) + 2] = Inr lag"
    then have t: "stage_question_path (stage ?cfg Timelag) = Some q"
      and d: "stage_question_path (stage ?cfg Duration) = None"
      using assms(2) by (simp_all add: set_each_question_path_stage resolved_question_path_def)
    from a have l: "load_question_set c (Some q) = Inr (b, cd)"
      and pt: "predict_timelag c labels b cd
                 [int (length b), int (length b) + 1, int (length b) + 2] = Inr lag"
      by simp_all
    from duration_modified_duration_unset [OF g t d l pt assms(4)]
    show "synthesis c config p =
            ([HtsLoad p, LoadQuestionSet (Some q), PredictTimelag, LoadQuestionSet None], Inl e)"
      by (simp add: synthesis_predicted [OF assms(1) assms(3)] traced_simps)
  }
qed

theorem synthesis_unset_question_path_witness:
  "\<not> ground_truth_duration ex_config_timelag_only
   \<and> question_path ex_config_timelag_only = None
   \<and> hts_load ex_collab ''song.lab'' = Inr ''0 50 a^b-c+d=e\<newline>''
   \<and> load_question_set ex_collab None = Inl (Raised ''TypeError'')
   \<and> stage_question_path (stage ex_config_timelag_only Timelag) = Some ''timelag.hed''
   \<and> stage_question_path (stage ex_config_timelag_only Duration) = None
   \<and> load_question_set ex_collab (Some ''timelag.hed'') = Inr ([''q0'', ''q1''], ())
   \<and> predict_timelag ex_collab ''0 50 a^b-c+d=e\<newline>'' [''q0'', ''q1''] () [2, 3, 4] = Inr [0]
   \<and> synthesis ex_collab ex_config_timelag_only ''song.lab'' =
       ([HtsLoad ''song.lab'', LoadQuestionSet (Some ''timelag.hed''), PredictTimelag,
         LoadQuestionSet None], Inl (Raised ''TypeError''))
   \<and> \<not> ground_truth_duration ex_config_unset
   \<and> question_path ex_config_unset = None
   \<and> stage_question_path (stage ex_config_unset Timelag) = None
   \<and> synthesis ex_collab ex_config_unset ''song.lab'' =
       ([HtsLoad ''song.lab'', LoadQuestionSet None], Inl (Raised ''TypeError''))"
proof -
  have g: "\<not> ground_truth_duration ex_config_timelag_only"
    and q: "question_path ex_config_timelag_only = None"
    and g': "\<not> ground_truth_duration ex_config_unset"
    and q': "question_path ex_config_unset = None"
    by (simp_all add: ex_config_timelag_only_def ex_config_unset_def ex_config_def)
  have h: "hts_load ex_collab ''song.lab'' = Inr ''0 50 a^b-c+d=e\<newline>''"
    and l: "load_question_set ex_collab None = Inl (Raised ''TypeError'')"
    by (simp_all add: ex_collab_def)
  have rest: "stage_question_path (stage ex_config_timelag_only Timelag) = Some ''timelag.hed''"
    "stage_question_path (stage ex_config_timelag_only Duration) = None"
    "load_question_set ex_collab (Some ''timelag.hed'') = Inr ([''q0'', ''q1''], ())"
    "predict_timelag ex_collab ''0 50 a^b-c+d=e\<newline>'' [''q0'', ''q1''] () [2, 3, 4] = Inr [0]"
    "stage_question_path (stage ex_config_unset Timelag) = None"
    by (simp_all add: ex_config_timelag_only_def ex_config_unset_def ex_config_def ex_collab_def)
  show ?thesis
    using g q g' q' h l rest
      synthesis_unset_question_path [OF g q h l] synthesis_unset_question_path [OF g' q' h l]
    by auto
qed

section \<open>Properties of the timing file\<close>






lemma timing_loop_malformed:
  "(\<exists>line\<in>set lines. length (py_split line) \<noteq> 3) \<Longrightarrow> timing_loop lines s = Inl ValueError"
proof (induction lines arbitrary: s)
  case Nil
  then show ?case by simp
next
  case (Cons line lines)
  show ?case
  proof (cases "length (py_split line) = 3")
    case True
    then obtain a b c where abc: "py_split line = [a, b, c]"
      by (auto simp: length_Suc_conv numeral_3_eq_3)
    from True Cons.prems have "\<exists>line\<in>set lines. length (py_split line) \<noteq> 3"
      by auto
    from Cons.IH [OF this] show ?thesis
      by (simp add: abc)
  next
    case False
    then show ?thesis
      by (auto split: list.splits)
  qed
qed

lemma py_split_example:
  "py_split ''0 50 a^b-c+d=e'' = [''0'', ''50'', ''a^b-c+d=e'']"
  by (simp add: py_split_def py_isspace_def)







section \<open>Properties of the output files\<close>

lemma write_timing_cases:
  "write_timing writable storable path label_text w =
     (if \<not> writable path then (w, Inl OSError)
      else case timing_loop (py_splitlines label_text) [] of
             Inl e \<Rightarrow> (w\<lparr>files := (files w)(path \<mapsto> Empty), opened := opened w @ [path]\<rparr>, Inl e)
           | Inr s \<Rightarrow>
               if \<not> storable path
               then (w\<lparr>files := (files w)(path \<mapsto> Partial), opened := opened w @ [path]\<rparr>,
                     Inl OSError)
               else (w\<lparr>files := (files w)(path \<mapsto> Text s), opened := opened w @ [path]\<rparr>,
                     Inr ()))"
  by (simp add: write_timing_def open_w_def put_def Let_def split: sum.splits)

lemma dump_cases:
  "dump writable storable path arr w =
     (if \<not> writable path then (w, Inl OSError)
      else if \<not> storable path
      then (w\<lparr>files := (files w)(path \<mapsto> Partial), opened := opened w @ [path]\<rparr>, Inl OSError)
      else (w\<lparr>files := (files w)(path \<mapsto> Float64 arr), opened := opened w @ [path]\<rparr>, Inr ()))"
  by (simp add: dump_def open_w_def put_def)

lemma generate_wav_file_cases:
  "generate_wav_file writable storable config wav path w =
     (case wav_samples (gain_normalize config) wav of
        Inl e \<Rightarrow> (w, Inl e)
      | Inr data \<Rightarrow>
          if \<not> writable path then (w, Inl OSError)
          else if \<not> storable path
          then (w\<lparr>files := (files w)(path \<mapsto> Partial), opened := opened w @ [path]\<rparr>,
                Inl OSError)
          else (w\<lparr>files := (files w)(path \<mapsto> Wave (sample_rate config) data),
                  opened := opened w @ [path]\<rparr>, Inr ()))"
  by (simp add: generate_wav_file_def open_w_def put_def split: sum.splits)

lemmas step_cases = write_timing_cases dump_cases generate_wav_file_cases and_then_def

lemma write_outputs_malformed:
  assumes "\<exists>line\<in>set (py_splitlines label_text). length (py_split line) \<noteq> 3"
    and "writable (py_replace out ''.wav'' ''_timing.lab'')"
  shows "write_outputs writable storable config out label_text f0 sp bap wav w =
           (open_w (py_replace out ''.wav'' ''_timing.lab'') w, Inl ValueError)"
  using assms(2) timing_loop_malformed [OF assms(1), of "[]"]
  by (simp add: write_outputs_def and_then_def write_timing_def)

lemma py_replace_song:
  "py_replace ''song.wav'' ''.wav'' ''_timing.lab'' = ''song_timing.lab''"
  "py_replace ''song.wav'' ''.wav'' ''.f0'' = ''song.f0''"
  "py_replace ''song.wav'' ''.wav'' ''.mgc'' = ''song.mgc''"
  "py_replace ''song.wav'' ''.wav'' ''.bap'' = ''song.bap''"
  by (simp_all add: py_replace_def)

text \<open>
  C5, as the claim states it, fails: a line with two fields ends the run with
  \<open>ValueError\<close>. The timing file, opened before the loop, is left empty, without the
  line of the well-formed entry before it, and no other file is opened.
\<close>

theorem malformed_line_counterexample:
  "write_outputs ex_writable ex_storable ex_config ''song.wav'' ''0 50 a^b-c+d=e\<newline>50 70\<newline>''
     [Val 440] [Val 1] [Val 0] [Val 16000, Val (- 8000)] ex_world
   = (open_w ''song_timing.lab'' ex_world, Inl ValueError)"
proof -
  have "py_splitlines ''0 50 a^b-c+d=e\<newline>50 70\<newline>'' = [''0 50 a^b-c+d=e'', ''50 70'']"
    by (simp add: py_splitlines_def py_linebreak_def)
  moreover have "py_split ''50 70'' = [''50'', ''70'']"
    by (simp add: py_split_def py_isspace_def)
  ultimately have "\<exists>line\<in>set (py_splitlines ''0 50 a^b-c+d=e\<newline>50 70\<newline>'').
      length (py_split line) \<noteq> 3"
    by simp
  then show ?thesis
    by (simp add: write_outputs_malformed py_replace_song ex_writable_def)
qed

text \<open>
  C5, amended. During the writing of the timing file, a line that does not split into
  exactly three fields ends the run with \<open>ValueError\<close>: the timing file has been
  opened and stays empty, and none of the later files is written.
\<close>

theorem malformed_line_aborts:
  assumes "\<exists>line\<in>set (py_splitlines label_text). length (py_split line) \<noteq> 3"
    and "writable (py_replace out ''.wav'' ''_timing.lab'')"
  shows "write_outputs writable storable config out label_text f0 sp bap wav w =
           (w\<lparr>files := (files w)(py_replace out ''.wav'' ''_timing.lab'' \<mapsto> Empty),
              opened := opened w @ [py_replace out ''.wav'' ''_timing.lab'']\<rparr>,
            Inl ValueError)"
  using assms by (simp add: write_outputs_malformed open_w_def)

theorem malformed_line_aborts_witness:
  "(\<exists>line\<in>set (py_splitlines ''50 70 x-y+z 1\<newline>''). length (py_split line) \<noteq> 3)
   \<and> write_outputs ex_writable ex_storable ex_config ''song.wav'' ''50 70 x-y+z 1\<newline>''
        [Val 440] [Val 1] [Val 0] [Val 16000, Val (- 8000)] ex_world
      = (\<lparr>files = [''song_timing.lab'' \<mapsto> Empty], opened = [''song_timing.lab'']\<rparr>,
         Inl ValueError)"
proof -
  have "py_splitlines ''50 70 x-y+z 1\<newline>'' = [''50 70 x-y+z 1'']"
    by (simp add: py_splitlines_def py_linebreak_def)
  moreover have "py_split ''50 70 x-y+z 1'' = [''50'', ''70'', ''x-y+z'', ''1'']"
    by (simp add: py_split_def py_isspace_def)
  ultimately have m: "\<exists>line\<in>set (py_splitlines ''50 70 x-y+z 1\<newline>'').
      length (py_split line) \<noteq> 3"
    by simp
  have w: "ex_writable (py_replace ''song.wav'' ''.wav'' ''_timing.lab'')"
    by (simp add: ex_writable_def)
  show ?thesis
    using m malformed_line_aborts [where writable = ex_writable and out = "''song.wav''"
        and storable = ex_storable and config = ex_config
        and ?f0.0 = "[Val 440]" and sp = "[Val 1]" and bap = "[Val 0]"
        and wav = "[Val 16000, Val (- 8000)]" and w = ex_world, OF m w]
    by (simp add: py_replace_song ex_world_def)
qed

lemma after_writes_append:
  "after_writes (ws @ [(path, data)]) w = put path data (open_w path (after_writes ws w))"
  by (induction ws arbitrary: w) auto

lemma after_writes_opened: "opened (after_writes ws w) = opened w @ map fst ws"
  by (induction ws arbitrary: w) (auto simp: open_w_def put_def)

lemma after_writes_other:
  "path \<notin> fst ` set ws \<Longrightarrow> files (after_writes ws w) path = files w path"
  by (induction ws arbitrary: w) (auto simp: open_w_def put_def)

lemma after_writes_holds:
  "distinct (map fst ws) \<Longrightarrow> (path, data) \<in> set ws \<Longrightarrow>
   files (after_writes ws w) path = Some data"
proof (induction ws arbitrary: w)
  case Nil
  then show ?case by simp
next
  case (Cons pd ws)
  obtain p d where pd: "pd = (p, d)" by (cases pd)
  show ?case
  proof (cases "(path, data) = (p, d)")
    case True
    then have "path \<notin> fst ` set ws"
      using Cons.prems(1) pd by auto
    then have "files (after_writes ws (put p d (open_w p w))) path
        = files (put p d (open_w p w)) path"
      by (rule after_writes_other)
    then show ?thesis
      using True pd by (simp add: open_w_def put_def)
  next
    case False
    then have "(path, data) \<in> set ws"
      using Cons.prems(2) pd by auto
    moreover have "distinct (map fst ws)"
      using Cons.prems(1) by simp
    ultimately show ?thesis
      using pd Cons.IH by simp
  qed
qed

lemma less_five_cases:
  "j < 5 \<Longrightarrow> j = 0 \<or> j = Suc 0 \<or> j = 2 \<or> j = 3 \<or> j = (4::nat)"
  by arith

lemmas world_simps = write_outputs_def step_cases earlier_files_def output_paths_def
  open_w_def put_def

text \<open>
  C9. The five files are written one after the other, in the order timing file,
  \<^verbatim>\<open>.f0\<close>, \<^verbatim>\<open>.mgc\<close>, \<^verbatim>\<open>.bap\<close>, audio file, and nothing is undone when a step raises.
  When no step fails, the run leaves the file system with the five files written in
  that order. When the file of step \<open>j\<close> cannot be opened, or the write to it fails, or
  the computation of the samples raises, the run ends with that exception and leaves
  the file system with the files of the steps before written in that order (and, after
  a failed write, the file of step \<open>j\<close> opened and holding part of its data). Writing
  files in order appends their paths to the list of opened paths, changes no other
  path and, when the paths differ from each other, leaves in each file its data.
\<close>

theorem write_outputs_no_rollback:
  "(timing_loop (py_splitlines label_text) [] = Inr s
      \<and> wav_samples (gain_normalize config) wav = Inr data
      \<and> (\<forall>p\<in>set (output_paths out). writable p \<and> storable p) \<longrightarrow>
      write_outputs writable storable config out label_text f0 sp bap wav w =
        (after_writes (earlier_files out s f0 sp bap @ [(out, Wave (sample_rate config) data)]) w,
         Inr ()))
   \<and> (j < 5
      \<and> (\<forall>p\<in>set (take j (output_paths out)). writable p \<and> storable p)
      \<and> \<not> writable (output_paths out ! j)
      \<and> (0 < j \<longrightarrow> timing_loop (py_splitlines label_text) [] = Inr s)
      \<and> (j = 4 \<longrightarrow> wav_samples (gain_normalize config) wav = Inr data) \<longrightarrow>
      write_outputs writable storable config out label_text f0 sp bap wav w =
        (after_writes (take j (earlier_files out s f0 sp bap)) w, Inl OSError))
   \<and> (j < 5
      \<and> (\<forall>p\<in>set (take j (output_paths out)). writable p \<and> storable p)
      \<and> writable (output_paths out ! j) \<and> \<not> storable (output_paths out ! j)
      \<and> timing_loop (py_splitlines label_text) [] = Inr s
      \<and> (j = 4 \<longrightarrow> wav_samples (gain_normalize config) wav = Inr data) \<longrightarrow>
      write_outputs writable storable config out label_text f0 sp bap wav w =
        (put (output_paths out ! j) Partial
           (open_w (output_paths out ! j)
              (after_writes (take j (earlier_files out s f0 sp bap)) w)),
         Inl OSError))
   \<and> (timing_loop (py_splitlines label_text) [] = Inr s
      \<and> wav_samples (gain_normalize config) wav = Inl e
      \<and> (\<forall>p\<in>set (take 4 (output_paths out)). writable p \<and> storable p) \<longrightarrow>
      write_outputs writable storable config out label_text f0 sp bap wav w =
        (after_writes (earlier_files out s f0 sp bap) w, Inl e))
   \<and> opened (after_writes ws w) = opened w @ map fst ws
   \<and> (\<forall>p. p \<notin> fst ` set ws \<longrightarrow> files (after_writes ws w) p = files w p)
   \<and> (distinct (map fst ws) \<longrightarrow> (\<forall>(p, d)\<in>set ws. files (after_writes ws w) p = Some d))"
proof (intro conjI impI)
  assume "timing_loop (py_splitlines label_text) [] = Inr s
      \<and> wav_samples (gain_normalize config) wav = Inr data
      \<and> (\<forall>p\<in>set (output_paths out). writable p \<and> storable p)"
  then show "write_outputs writable storable config out label_text f0 sp bap wav w =
        (after_writes (earlier_files out s f0 sp bap @ [(out, Wave (sample_rate config) data)]) w,
         Inr ())"
    by (simp add: world_simps)
next
  assume a: "j < 5
      \<and> (\<forall>p\<in>set (take j (output_paths out)). writable p \<and> storable p)
      \<and> \<not> writable (output_paths out ! j)
      \<and> (0 < j \<longrightarrow> timing_loop (py_splitlines label_text) [] = Inr s)
      \<and> (j = 4 \<longrightarrow> wav_samples (gain_normalize config) wav = Inr data)"
  then have "j = 0 \<or> j = Suc 0 \<or> j = 2 \<or> j = 3 \<or> j = 4"
    by (intro less_five_cases) simp
  then show "write_outputs writable storable config out label_text f0 sp bap wav w =
        (after_writes (take j (earlier_files out s f0 sp bap)) w, Inl OSError)"
    using a by (elim disjE) (simp_all add: world_simps eval_nat_numeral)
next
  assume a: "j < 5
      \<and> (\<forall>p\<in>set (take j (output_paths out)). writable p \<and> storable p)
      \<and> writable (output_paths out ! j) \<and> \<not> storable (output_paths out ! j)
      \<and> timing_loop (py_splitlines label_text) [] = Inr s
      \<and> (j = 4 \<longrightarrow> wav_samples (gain_normalize config) wav = Inr data)"
  then have "j = 0 \<or> j = Suc 0 \<or> j = 2 \<or> j = 3 \<or> j = 4"
    by (intro less_five_cases) simp
  then show "write_outputs writable storable config out label_text f0 sp bap wav w =
        (put (output_paths out ! j) Partial
           (open_w (output_paths out ! j)
              (after_writes (take j (earlier_files out s f0 sp bap)) w)),
         Inl OSError)"
    using a by (elim disjE) (simp_all add: world_simps eval_nat_numeral)
next
  assume "timing_loop (py_splitlines label_text) [] = Inr s
      \<and> wav_samples (gain_normalize config) wav = Inl e
      \<and> (\<forall>p\<in>set (take 4 (output_paths out)). writable p \<and> storable p)"
  then show "write_outputs writable storable config out label_text f0 sp bap wav w =
        (after_writes (earlier_files out s f0 sp bap) w, Inl e)"
    by (simp add: world_simps eval_nat_numeral)
next
  show "opened (after_writes ws w) = opened w @ map fst ws"
    by (rule after_writes_opened)
next
  show "\<forall>p. p \<notin> fst ` set ws \<longrightarrow> files (after_writes ws w) p = files w p"
    by (simp add: after_writes_other)
next
  assume "distinct (map fst ws)"
  then show "\<forall>(p, d)\<in>set ws. files (after_writes ws w) p = Some d"
    by (auto simp: after_writes_holds)
qed

lemma ex_timing_text: "timing_loop (py_splitlines ''0 50 a^b-c+d=e\<newline>'') [] = Inr ''0 50 c\<newline>''"
  by (simp add: py_splitlines_def py_linebreak_def py_split_example py_find_def py_slice_def)

lemma ex_samples:
  "wav_samples (gain_normalize ex_config) [Val 16000, Val (- 8000)]
     = Inr [Val (16000 / 32767), Val (- 8000 / 32767)]"
  by (simp add: wav_samples_def bit_depth_step_def estimate_bit_depth_def scale_by_bit_depth_def
      gain_step_def np_abs_def np_div_def f_max_def ex_config_def)

lemma ex_samples_empty: "wav_samples (gain_normalize ex_config) [] = Inl ValueError"
  by (simp add: wav_samples_def bit_depth_step_def estimate_bit_depth_def np_abs_def)

lemma ex_output_paths:
  "output_paths ''song.wav'' =
     [''song_timing.lab'', ''song.f0'', ''song.mgc'', ''song.bap'', ''song.wav'']"
  by (simp add: output_paths_def py_replace_song)

lemma ex_earlier_files:
  "earlier_files ''song.wav'' s f0 sp bap =
     [(''song_timing.lab'', Text s), (''song.f0'', Float64 f0), (''song.mgc'', Float64 sp),
      (''song.bap'', Float64 bap)]"
  by (simp add: earlier_files_def py_replace_song)

theorem write_outputs_no_rollback_witness:
  "write_outputs ex_writable ex_storable ex_config ''song.wav'' ''0 50 a^b-c+d=e\<newline>''
     [Val 440] [Val 1] [Val 0] [Val 16000, Val (- 8000)] ex_world
   = (\<lparr>files = [''song_timing.lab'' \<mapsto> Text ''0 50 c\<newline>'', ''song.f0'' \<mapsto> Float64 [Val 440],
                ''song.mgc'' \<mapsto> Float64 [Val 1], ''song.bap'' \<mapsto> Float64 [Val 0],
                ''song.wav'' \<mapsto> Wave 48000 [Val (16000 / 32767), Val (- 8000 / 32767)]],
        opened = [''song_timing.lab'', ''song.f0'', ''song.mgc'', ''song.bap'', ''song.wav'']\<rparr>,
      Inr ())
   \<and> write_outputs ex_writable ex_storable ex_config ''song.wav'' ''0 50 a^b-c+d=e\<newline>''
       [Val 440] [Val 1] [Val 0] [] ex_world
     = (\<lparr>files = [''song_timing.lab'' \<mapsto> Text ''0 50 c\<newline>'', ''song.f0'' \<mapsto> Float64 [Val 440],
                  ''song.mgc'' \<mapsto> Float64 [Val 1], ''song.bap'' \<mapsto> Float64 [Val 0]],
          opened = [''song_timing.lab'', ''song.f0'', ''song.mgc'', ''song.bap'']\<rparr>,
        Inl ValueError)
   \<and> write_outputs ex_writable ex_storable_full ex_config ''song.wav'' ''0 50 a^b-c+d=e\<newline>''
       [Val 440] [Val 1] [Val 0] [Val 16000, Val (- 8000)] ex_world
     = (\<lparr>files = [''song_timing.lab'' \<mapsto> Text ''0 50 c\<newline>'', ''song.f0'' \<mapsto> Float64 [Val 440],
                  ''song.mgc'' \<mapsto> Float64 [Val 1], ''song.bap'' \<mapsto> Float64 [Val 0],
                  ''song.wav'' \<mapsto> Partial],
          opened = [''song_timing.lab'', ''song.f0'', ''song.mgc'', ''song.bap'', ''song.wav'']\<rparr>,
        Inl OSError)
   \<and> write_outputs ex_writable_locked ex_storable ex_config ''song.wav''
       ''0 50 a^b-c+d=e\<newline>'' [Val 440] [Val 1] [Val 0] [Val 16000, Val (- 8000)] ex_world
     = (\<lparr>files = [''song_timing.lab'' \<mapsto> Text ''0 50 c\<newline>'', ''song.f0'' \<mapsto> Float64 [Val 440]],
          opened = [''song_timing.lab'', ''song.f0'']\<rparr>,
        Inl OSError)"
proof -
  have rate: "sample_rate ex_config = 48000"
    by (simp add: ex_config_def)
  note run = write_outputs_no_rollback
    [where label_text = "''0 50 a^b-c+d=e\<newline>''" and s = "''0 50 c\<newline>''"
      and config = ex_config and out = "''song.wav''" and ?f0.0 = "[Val 440]"
      and sp = "[Val 1]" and bap = "[Val 0]" and w = ex_world and ws = "[]"]
  note ok = run [where wav = "[Val 16000, Val (- 8000)]"
      and data = "[Val (16000 / 32767), Val (- 8000 / 32767)]"
      and writable = ex_writable and storable = ex_storable and j = 0 and e = ValueError]
  note gain = run [where wav = "[]" and data = "[]"
      and writable = ex_writable and storable = ex_storable and j = 0 and e = ValueError]
  note full = run [where wav = "[Val 16000, Val (- 8000)]"
      and data = "[Val (16000 / 32767), Val (- 8000 / 32767)]"
      and writable = ex_writable and storable = ex_storable_full and j = 4 and e = ValueError]
  note closed = run [where wav = "[Val 16000, Val (- 8000)]"
      and data = "[Val (16000 / 32767), Val (- 8000 / 32767)]"
      and writable = ex_writable_locked and storable = ex_storable and j = 2
      and e = ValueError]
  have a: "write_outputs ex_writable ex_storable ex_config ''song.wav'' ''0 50 a^b-c+d=e\<newline>''
     [Val 440] [Val 1] [Val 0] [Val 16000, Val (- 8000)] ex_world
   = (after_writes (earlier_files ''song.wav'' ''0 50 c\<newline>'' [Val 440] [Val 1] [Val 0]
        @ [(''song.wav'', Wave 48000 [Val (16000 / 32767), Val (- 8000 / 32767)])]) ex_world,
      Inr ())"
    using ok ex_timing_text ex_samples
    by (simp add: ex_output_paths ex_writable_def ex_storable_def rate)
  have b: "write_outputs ex_writable ex_storable ex_config ''song.wav'' ''0 50 a^b-c+d=e\<newline>''
       [Val 440] [Val 1] [Val 0] [] ex_world
     = (after_writes (earlier_files ''song.wav'' ''0 50 c\<newline>'' [Val 440] [Val 1] [Val 0])
          ex_world, Inl ValueError)"
    using gain ex_timing_text ex_samples_empty
    by (simp add: ex_output_paths ex_writable_def ex_storable_def)
  have c: "write_outputs ex_writable ex_storable_full ex_config ''song.wav''
       ''0 50 a^b-c+d=e\<newline>'' [Val 440] [Val 1] [Val 0] [Val 16000, Val (- 8000)] ex_world
     = (put ''song.wav'' Partial
          (open_w ''song.wav''
             (after_writes (earlier_files ''song.wav'' ''0 50 c\<newline>'' [Val 440] [Val 1] [Val 0])
                ex_world)),
        Inl OSError)"
    using full ex_timing_text ex_samples
    by (simp add: ex_output_paths ex_earlier_files ex_writable_def ex_storable_full_def)
  have d: "write_outputs ex_writable_locked ex_storable ex_config ''song.wav''
       ''0 50 a^b-c+d=e\<newline>'' [Val 440] [Val 1] [Val 0] [Val 16000, Val (- 8000)] ex_world
     = (after_writes
          (take 2 (earlier_files ''song.wav'' ''0 50 c\<newline>'' [Val 440] [Val 1] [Val 0]))
          ex_world, Inl OSError)"
    using closed ex_timing_text
    by (simp add: ex_output_paths ex_storable_def ex_writable_locked_def)
  show ?thesis
    unfolding a b c d
    by (simp add: ex_earlier_files ex_world_def open_w_def put_def)
qed

section \<open>Properties of the output paths\<close>

lemma replace_from_absent:
  "\<not> (\<exists>u v. s = u @ old @ v) \<Longrightarrow> replace_from old new s = s"
proof (induction s)
  case Nil
  then show ?case by simp
next
  case (Cons c cs)
  have no_prefix: "\<not> (old \<noteq> [] \<and> take (length old) (c # cs) = old)"
  proof
    assume "old \<noteq> [] \<and> take (length old) (c # cs) = old"
    then have "c # cs = [] @ old @ drop (length old) (c # cs)"
      by (metis append_Nil append_take_drop_id)
    with Cons.prems show False by blast
  qed
  have "\<not> (\<exists>u v. cs = u @ old @ v)"
  proof
    assume "\<exists>u v. cs = u @ old @ v"
    then obtain u v where "cs = u @ old @ v" by blast
    then have "c # cs = (c # u) @ old @ v" by simp
    with Cons.prems show False by blast
  qed
  from Cons.IH [OF this] no_prefix show ?case
    by auto
qed

lemma replace_from_first:
  assumes "old \<noteq> []" and "\<not> (\<exists>u v. a @ butlast old = u @ old @ v)"
  shows "replace_from old new (a @ old @ b) = a @ new @ replace_from old new b"
  using assms(2)
proof (induction a)
  case Nil
  from assms(1) obtain c cs where old: "old = c # cs"
    by (cases old) auto
  have "replace_from (c # cs) new (c # (cs @ b)) = new @ replace_from (c # cs) new b"
    by (subst replace_from.simps) simp
  then show ?case
    using old by simp
next
  case (Cons x a)
  define bl where "bl = butlast old"
  define l where "l = last old"
  have old: "old = bl @ [l]"
    using assms(1) by (simp add: bl_def l_def)
  have no_prefix: "take (length old) ((x # a) @ old @ b) \<noteq> old"
  proof
    assume eq: "take (length old) ((x # a) @ old @ b) = old"
    have "take (length old) (((x # a) @ bl) @ (l # b)) = take (length old) ((x # a) @ bl)"
      using old by simp
    then have "take (length old) ((x # a) @ bl) = old"
      using eq old by simp
    then have "(x # a) @ bl = [] @ old @ drop (length old) ((x # a) @ bl)"
      using append_take_drop_id [of "length old" "(x # a) @ bl"] by simp
    with Cons.prems show False
      unfolding bl_def by blast
  qed
  have "\<not> (\<exists>u v. a @ butlast old = u @ old @ v)"
  proof
    assume "\<exists>u v. a @ butlast old = u @ old @ v"
    then obtain u v where "a @ butlast old = u @ old @ v" by blast
    then have "(x # a) @ butlast old = (x # u) @ old @ v" by simp
    with Cons.prems show False by blast
  qed
  from Cons.IH [OF this] no_prefix show ?case
    by simp
qed

lemma find_from_absent:
  "0 \<le> k \<Longrightarrow> find_from sub s k = - 1 \<longleftrightarrow> \<not> (\<exists>u v. s = u @ sub @ v)"
proof (induction s arbitrary: k)
  case Nil
  then show ?case by auto
next
  case (Cons c cs)
  show ?case
  proof (cases "take (length sub) (c # cs) = sub")
    case True
    then have "c # cs = [] @ sub @ drop (length sub) (c # cs)"
      using append_take_drop_id [of "length sub" "c # cs"] by simp
    then have "\<exists>u v. c # cs = u @ sub @ v" by blast
    then show ?thesis
      using True Cons.prems by simp
  next
    case False
    have "(\<exists>u v. c # cs = u @ sub @ v) \<longleftrightarrow> (\<exists>u v. cs = u @ sub @ v)"
    proof
      assume "\<exists>u v. c # cs = u @ sub @ v"
      then obtain u v where uv: "c # cs = u @ sub @ v" by blast
      show "\<exists>u v. cs = u @ sub @ v"
      proof (cases u)
        case Nil
        with uv have "take (length sub) (c # cs) = sub" by simp
        with False show ?thesis by simp
      next
        case (Cons x u')
        with uv have "cs = u' @ sub @ v" by simp
        then show ?thesis by blast
      qed
    next
      assume "\<exists>u v. cs = u @ sub @ v"
      then obtain u v where "cs = u @ sub @ v" by blast
      then have "c # cs = (c # u) @ sub @ v" by simp
      then show "\<exists>u v. c # cs = u @ sub @ v" by blast
    qed
    moreover have "find_from sub cs (k + 1) = - 1 \<longleftrightarrow> \<not> (\<exists>u v. cs = u @ sub @ v)"
      using Cons.prems by (intro Cons.IH) simp
    ultimately show ?thesis
      using False by simp
  qed
qed

lemma py_contains_iff: "py_contains s sub \<longleftrightarrow> (\<exists>u v. s = u @ sub @ v)"
  using find_from_absent [of 0 sub s] by (simp add: py_contains_def py_find_def)

lemma py_replace_absent:
  assumes "\<not> py_contains s old"
  shows "py_replace s old new = s"
proof -
  from assms have no: "\<not> (\<exists>u v. s = u @ old @ v)"
    by (simp add: py_contains_iff)
  have "old \<noteq> []"
  proof
    assume "old = []"
    then have "s = s @ old @ []" by simp
    with no show False by blast
  qed
  with no show ?thesis
    by (simp add: py_replace_def replace_from_absent)
qed

lemma py_replace_first:
  assumes "old \<noteq> []" and "\<not> py_contains (a @ butlast old) old"
  shows "py_replace (a @ old @ b) old new = a @ new @ py_replace b old new"
  using assms by (simp add: py_replace_def py_contains_iff replace_from_first)

text \<open>
  C10. The auxiliary paths come from \<^verbatim>\<open>out_wav_path\<close> by replacing every occurrence of
  \<^verbatim>\<open>.wav\<close>, wherever it stands: the first occurrence is replaced and the replacement
  goes on in what follows it, and a string without \<^verbatim>\<open>.wav\<close> is left as it is. These
  are the paths of the files that a run opens and writes: for a path \<open>a.wavb\<close> whose
  first \<^verbatim>\<open>.wav\<close> follows \<open>a\<close>, a run without failure writes, in this order, the timing
  text, the three arrays and the audio data to the paths \<open>p1\<close>, \<open>p2\<close>, \<open>p3\<close>, \<open>p4\<close>
  below and to the path itself. A path in which \<^verbatim>\<open>.wav\<close> does not occur is its own
  timing, \<^verbatim>\<open>.f0\<close>, \<^verbatim>\<open>.mgc\<close> and \<^verbatim>\<open>.bap\<close> path; a run without failure then opens that one
  file five times and leaves the audio data in it.
\<close>

theorem output_paths_replace_every_occurrence:
  "(\<not> py_contains (a @ ''.wa'') ''.wav'' \<longrightarrow>
      py_replace (a @ ''.wav'' @ b) ''.wav'' new = a @ new @ py_replace b ''.wav'' new)
   \<and> (\<not> py_contains b ''.wav'' \<longrightarrow> py_replace b ''.wav'' new = b)
   \<and> (\<not> py_contains (a @ ''.wa'') ''.wav''
      \<and> p1 = a @ ''_timing.lab'' @ py_replace b ''.wav'' ''_timing.lab''
      \<and> p2 = a @ ''.f0'' @ py_replace b ''.wav'' ''.f0''
      \<and> p3 = a @ ''.mgc'' @ py_replace b ''.wav'' ''.mgc''
      \<and> p4 = a @ ''.bap'' @ py_replace b ''.wav'' ''.bap''
      \<and> (\<forall>p\<in>set [p1, p2, p3, p4, a @ ''.wav'' @ b]. writable p \<and> storable p)
      \<and> timing_loop (py_splitlines label_text) [] = Inr s
      \<and> wav_samples (gain_normalize config) wav = Inr data \<longrightarrow>
      write_outputs writable storable config (a @ ''.wav'' @ b) label_text f0 sp bap wav w =
        (w\<lparr>files := (files w)(p1 \<mapsto> Text s, p2 \<mapsto> Float64 f0, p3 \<mapsto> Float64 sp,
                      p4 \<mapsto> Float64 bap, a @ ''.wav'' @ b \<mapsto> Wave (sample_rate config) data),
            opened := opened w @ [p1, p2, p3, p4, a @ ''.wav'' @ b]\<rparr>, Inr ()))
   \<and> (\<not> py_contains out ''.wav'' \<longrightarrow>
        output_paths out = [out, out, out, out, out]
        \<and> (writable out \<and> storable out
              \<and> timing_loop (py_splitlines label_text) [] = Inr s
              \<and> wav_samples (gain_normalize config) wav = Inr data \<longrightarrow>
              write_outputs writable storable config out label_text f0 sp bap wav w =
                (w\<lparr>files := (files w)(out \<mapsto> Wave (sample_rate config) data),
                   opened := opened w @ [out, out, out, out, out]\<rparr>, Inr ())))"
proof (intro conjI impI)
  assume "\<not> py_contains (a @ ''.wa'') ''.wav''"
  then have "\<not> py_contains (a @ butlast ''.wav'') ''.wav''" by simp
  then show "py_replace (a @ ''.wav'' @ b) ''.wav'' new = a @ new @ py_replace b ''.wav'' new"
    by (intro py_replace_first) simp_all
next
  assume "\<not> py_contains b ''.wav''"
  then show "py_replace b ''.wav'' new = b"
    by (rule py_replace_absent)
next
  assume h: "\<not> py_contains (a @ ''.wa'') ''.wav''
      \<and> p1 = a @ ''_timing.lab'' @ py_replace b ''.wav'' ''_timing.lab''
      \<and> p2 = a @ ''.f0'' @ py_replace b ''.wav'' ''.f0''
      \<and> p3 = a @ ''.mgc'' @ py_replace b ''.wav'' ''.mgc''
      \<and> p4 = a @ ''.bap'' @ py_replace b ''.wav'' ''.bap''
      \<and> (\<forall>p\<in>set [p1, p2, p3, p4, a @ ''.wav'' @ b]. writable p \<and> storable p)
      \<and> timing_loop (py_splitlines label_text) [] = Inr s
      \<and> wav_samples (gain_normalize config) wav = Inr data"
  then have "\<not> py_contains (a @ butlast ''.wav'') ''.wav''" by simp
  then have r: "py_replace (a @ ''.wav'' @ b) ''.wav'' new = a @ new @ py_replace b ''.wav'' new"
    for new
    by (intro py_replace_first) simp_all
  from h have e1: "p1 = a @ ''_timing.lab'' @ py_replace b ''.wav'' ''_timing.lab''"
    and e2: "p2 = a @ ''.f0'' @ py_replace b ''.wav'' ''.f0''"
    and e3: "p3 = a @ ''.mgc'' @ py_replace b ''.wav'' ''.mgc''"
    and e4: "p4 = a @ ''.bap'' @ py_replace b ''.wav'' ''.bap''"
    by blast+
  have paths: "py_replace (a @ ''.wav'' @ b) ''.wav'' ''_timing.lab'' = p1"
    "py_replace (a @ ''.wav'' @ b) ''.wav'' ''.f0'' = p2"
    "py_replace (a @ ''.wav'' @ b) ''.wav'' ''.mgc'' = p3"
    "py_replace (a @ ''.wav'' @ b) ''.wav'' ''.bap'' = p4"
    unfolding e1 e2 e3 e4 by (rule r)+
  from h have "\<forall>p\<in>set [p1, p2, p3, p4, a @ ''.wav'' @ b]. writable p \<and> storable p"
    by blast
  then have ok: "writable p1" "storable p1" "writable p2" "storable p2" "writable p3"
    "storable p3" "writable p4" "storable p4" "writable (a @ ''.wav'' @ b)"
    "storable (a @ ''.wav'' @ b)"
    by simp_all
  from h have t: "timing_loop (py_splitlines label_text) [] = Inr s"
    and d: "wav_samples (gain_normalize config) wav = Inr data"
    by blast+
  show "write_outputs writable storable config (a @ ''.wav'' @ b) label_text f0 sp bap wav w =
        (w\<lparr>files := (files w)(p1 \<mapsto> Text s, p2 \<mapsto> Float64 f0, p3 \<mapsto> Float64 sp,
                      p4 \<mapsto> Float64 bap, a @ ''.wav'' @ b \<mapsto> Wave (sample_rate config) data),
            opened := opened w @ [p1, p2, p3, p4, a @ ''.wav'' @ b]\<rparr>, Inr ())"
    unfolding write_outputs_def paths
    using ok t d by (simp add: step_cases)
next
  assume no: "\<not> py_contains out ''.wav''"
  then show "output_paths out = [out, out, out, out, out]"
    by (simp add: output_paths_def py_replace_absent)
next
  assume no: "\<not> py_contains out ''.wav''"
    and ok: "writable out \<and> storable out
              \<and> timing_loop (py_splitlines label_text) [] = Inr s
              \<and> wav_samples (gain_normalize config) wav = Inr data"
  then show "write_outputs writable storable config out label_text f0 sp bap wav w =
                (w\<lparr>files := (files w)(out \<mapsto> Wave (sample_rate config) data),
                   opened := opened w @ [out, out, out, out, out]\<rparr>, Inr ())"
    by (simp add: write_outputs_def step_cases py_replace_absent)
qed

theorem output_paths_replace_every_occurrence_witness:
  "\<not> py_contains (''take'' @ ''.wa'') ''.wav''
   \<and> py_replace ''take.wav/song.wav'' ''.wav'' ''.f0'' = ''take.f0/song.f0''
   \<and> write_outputs ex_writable ex_storable ex_config ''take.wav/song.wav''
        ''0 50 a^b-c+d=e\<newline>'' [Val 440] [Val 1] [Val 0] [Val 16000, Val (- 8000)] ex_world
      = (\<lparr>files = [''take_timing.lab/song_timing.lab'' \<mapsto> Text ''0 50 c\<newline>'',
                   ''take.f0/song.f0'' \<mapsto> Float64 [Val 440],
                   ''take.mgc/song.mgc'' \<mapsto> Float64 [Val 1],
                   ''take.bap/song.bap'' \<mapsto> Float64 [Val 0],
                   ''take.wav/song.wav'' \<mapsto>
                      Wave 48000 [Val (16000 / 32767), Val (- 8000 / 32767)]],
           opened = [''take_timing.lab/song_timing.lab'', ''take.f0/song.f0'',
                     ''take.mgc/song.mgc'', ''take.bap/song.bap'', ''take.wav/song.wav'']\<rparr>,
         Inr ())
   \<and> \<not> py_contains ''song'' ''.wav''
   \<and> output_paths ''song'' = [''song'', ''song'', ''song'', ''song'', ''song'']
   \<and> write_outputs ex_writable ex_storable ex_config ''song'' ''0 50 a^b-c+d=e\<newline>''
        [Val 440] [Val 1] [Val 0] [Val 16000, Val (- 8000)] ex_world
      = (\<lparr>files = [''song'' \<mapsto> Wave 48000 [Val (16000 / 32767), Val (- 8000 / 32767)]],
           opened = [''song'', ''song'', ''song'', ''song'', ''song'']\<rparr>, Inr ())"
proof -
  have a: "\<not> py_contains (''take'' @ ''.wa'') ''.wav''"
    and b: "\<not> py_contains ''song'' ''.wav''"
    by (simp_all add: py_contains_def py_find_def)
  have c: "py_replace ''/song.wav'' ''.wav'' ''_timing.lab'' = ''/song_timing.lab''"
    "py_replace ''/song.wav'' ''.wav'' ''.f0'' = ''/song.f0''"
    "py_replace ''/song.wav'' ''.wav'' ''.mgc'' = ''/song.mgc''"
    "py_replace ''/song.wav'' ''.wav'' ''.bap'' = ''/song.bap''"
    by (simp_all add: py_replace_def)
  have d: "sample_rate ex_config = 48000"
    by (simp add: ex_config_def)
  note inst = output_paths_replace_every_occurrence
    [where a = "''take''" and b = "''/song.wav''" and new = "''.f0''" and out = "''song''"
      and ?p1.0 = "''take_timing.lab/song_timing.lab''" and ?p2.0 = "''take.f0/song.f0''"
      and ?p3.0 = "''take.mgc/song.mgc''" and ?p4.0 = "''take.bap/song.bap''"
      and writable = ex_writable and storable = ex_storable
      and label_text = "''0 50 a^b-c+d=e\<newline>''" and s = "''0 50 c\<newline>''"
      and config = ex_config and wav = "[Val 16000, Val (- 8000)]"
      and data = "[Val (16000 / 32767), Val (- 8000 / 32767)]"
      and ?f0.0 = "[Val 440]" and sp = "[Val 1]" and bap = "[Val 0]" and w = ex_world]
  show ?thesis
    using a b c d ex_timing_text ex_samples inst
    by (simp add: ex_world_def ex_writable_def ex_storable_def)
qed

end
